theory Spec2Isabelle
  imports Complex_Main "HOL-Library.Word" "HOL-Library.Multiset"
begin

section \<open>JavaScript values used by the client code\<close>

text \<open>
  A JavaScript string is a sequence of 16-bit code units; \<open>length\<close> counts code units.
  \<open>utf16\<close> writes an ASCII literal as such a sequence.
\<close>

type_synonym jsstring = "16 word list"

definition utf16 :: "string \<Rightarrow> jsstring" where
  "utf16 s = map of_char s"

text \<open>
  Numbers: the finite doubles are taken as rationals (comparison, \<open>Math.min\<close>,
  \<open>Math.max\<close> and truthiness involve no rounding), with the three special values.
  \<open>+0\<close> and \<open>-0\<close> coincide, which no operation used here separates.
\<close>

datatype jsnum = JNaN | JNegInf | JFin rat | JPosInf

text \<open>Primitive values, as far as the API clients tell them apart.\<close>

datatype prim = JUndefined | JNull | JBool bool | JNum jsnum | JStr jsstring

fun num_truthy :: "jsnum \<Rightarrow> bool" where
  "num_truthy JNaN = False"
| "num_truthy (JFin r) = (r \<noteq> 0)"
| "num_truthy JNegInf = True"
| "num_truthy JPosInf = True"

fun truthy :: "prim \<Rightarrow> bool" where
  "truthy JUndefined = False"
| "truthy JNull = False"
| "truthy (JBool b) = b"
| "truthy (JNum n) = num_truthy n"
| "truthy (JStr s) = (s \<noteq> [])"

text \<open>
  \<open>Number(v)\<close> on a primitive. The conversion of a string (StringToNumber) belongs to
  the platform and is the parameter \<open>parseNum\<close>.
\<close>

fun ToNumber :: "(jsstring \<Rightarrow> jsnum) \<Rightarrow> prim \<Rightarrow> jsnum" where
  "ToNumber parseNum JUndefined = JNaN"
| "ToNumber parseNum JNull = JFin 0"
| "ToNumber parseNum (JBool b) = JFin (if b then 1 else 0)"
| "ToNumber parseNum (JNum n) = n"
| "ToNumber parseNum (JStr s) = parseNum s"

text \<open>The order of the non-NaN numbers, and \<open>Math.max\<close> / \<open>Math.min\<close> of two arguments.\<close>

fun num_le :: "jsnum \<Rightarrow> jsnum \<Rightarrow> bool" where
  "num_le JNaN b = False"
| "num_le a JNaN = False"
| "num_le JNegInf b = True"
| "num_le a JPosInf = True"
| "num_le (JFin x) (JFin y) = (x \<le> y)"
| "num_le (JFin x) JNegInf = False"
| "num_le JPosInf (JFin y) = False"
| "num_le JPosInf JNegInf = False"

definition Math_max :: "jsnum \<Rightarrow> jsnum \<Rightarrow> jsnum" where
  "Math_max a b = (if a = JNaN \<or> b = JNaN then JNaN else if num_le a b then b else a)"

definition Math_min :: "jsnum \<Rightarrow> jsnum \<Rightarrow> jsnum" where
  "Math_min a b = (if a = JNaN \<or> b = JNaN then JNaN else if num_le a b then a else b)"

text \<open>
  \<open>String.prototype.trim\<close> removes the WhiteSpace and LineTerminator code units of
  ECMAScript from both ends.
\<close>

definition isWhiteSpace :: "16 word \<Rightarrow> bool" where
  "isWhiteSpace c \<longleftrightarrow>
     c \<in> set [0x9, 0xA, 0xB, 0xC, 0xD, 0x20, 0xA0, 0x1680, 0x2028, 0x2029, 0x202F,
               0x205F, 0x3000, 0xFEFF]
     \<or> (0x2000 \<le> c \<and> c \<le> 0x200A)"

definition trim :: "jsstring \<Rightarrow> jsstring" where
  "trim s = rev (dropWhile isWhiteSpace (rev (dropWhile isWhiteSpace s)))"


section \<open>The HTTP wrapper as seen by the API clients\<close>

text \<open>
  The wrapper (\<open>get\<close>, \<open>post\<close>, \<open>patch\<close>, \<open>del\<close> of \<open>httpClient.js\<close>) is not part of the
  sources; it is a parameter of every client function. A call either throws an error of
  type \<open>'e\<close> or returns a response, of which the clients read the \<open>data\<close> field only
  (\<open>None\<close>: \<open>null\<close> or \<open>undefined\<close>). Each constructor of \<open>request\<close> is one call
  the clients make.
\<close>

datatype sort_dir = Asc | Desc

record list_query =
  q_sort :: sort_dir
  q_limit :: jsnum
  q_cursor :: "prim option"

record create_body =
  b_title :: jsstring
  b_content :: jsstring
  b_imageIds :: "jsnum list"
  b_primaryImageId :: "prim option"

record update_payload =
  u_title :: "jsstring option"
  u_content :: "jsstring option"
  u_imageIds :: "jsnum list option"

record metadata =
  storedFilename :: prim
  s3Path :: prim
  originalExtension :: prim
  imageType :: prim

record feedback =
  fb_content :: prim
  fb_appVersion :: prim
  fb_platform :: prim
  fb_createdAt :: prim

datatype request =
    POST_posts create_body                \<comment> \<open>\<open>post('/posts', { body })\<close>\<close>
  | GET_posts list_query                  \<comment> \<open>\<open>get('/posts', { query })\<close>\<close>
  | GET_post prim                         \<comment> \<open>\<open>get(`/posts/${postId}`)\<close>\<close>
  | PATCH_post prim update_payload        \<comment> \<open>\<open>patch(`/posts/${postId}`, { body: payload })\<close>\<close>
  | DELETE_post prim                      \<comment> \<open>\<open>del(`/posts/${postId}`, { parseJson: true })\<close>\<close>
  | GET_posts_me list_query               \<comment> \<open>\<open>get('/posts/me', { query })\<close>\<close>
  | GET_ai_generations_remaining          \<comment> \<open>\<open>get('/ai-generations/remaining')\<close>\<close>
  | POST_images_metadata metadata bool    \<comment> \<open>\<open>post('/images/metadata', { body })\<close>, with \<open>aiGenerated\<close>\<close>
  | GET_image prim                        \<comment> \<open>\<open>get(`/images/${imageId}`)\<close>\<close>
  | DELETE_image prim                     \<comment> \<open>\<open>del(`/images/${imageId}`, { parseJson: true })\<close>\<close>
  | POST_feedback "feedback option"       \<comment> \<open>\<open>post('feedback', { body: feedbackData })\<close>\<close>

text \<open>
  What a client function throws: one of its own validation errors (the constructors stand
  for the Korean messages of the source), or the wrapper's error, as it is.
\<close>

datatype client_error =
    TitleRequired        \<comment> \<open>"please enter a title"\<close>
  | TitleLength          \<comment> \<open>"the title must have 2 to 26 characters"\<close>
  | ContentRequired      \<comment> \<open>"please enter the content"\<close>
  | ContentLength        \<comment> \<open>"the content must have 2 to 10000 characters"\<close>
  | ImageIdsNotArray     \<comment> \<open>"imageIds must be an array"\<close>
  | PostIdRequired       \<comment> \<open>"a post id is needed"\<close>
  | NothingToUpdate      \<comment> \<open>"enter at least one item to change"\<close>
  | MetadataRequired     \<comment> \<open>"image metadata is needed"\<close>
  | ImageIdRequired      \<comment> \<open>"an image id is needed"\<close>

datatype 'e thrown = ClientError client_error | HttpError 'e

text \<open>
  A client function returns the wrapper calls it made, in order, and its outcome.
  \<open>call\<close> is \<open>const response = await wrapper(...); return response.data ?? null;\<close>.
\<close>

type_synonym ('e, 'd) outcome = "request list \<times> ('e thrown + 'd option)"

definition call :: "(request \<Rightarrow> 'e + 'd option) \<Rightarrow> request \<Rightarrow> ('e, 'd) outcome" where
  "call http r = ([r], case http r of Inl e \<Rightarrow> Inl (HttpError e) | Inr d \<Rightarrow> Inr d)"

definition throw :: "client_error \<Rightarrow> ('e, 'd) outcome" where
  "throw err = ([], Inl (ClientError err))"


section \<open>The post API client\<close>

definition validateTitle :: "prim \<Rightarrow> client_error option" where
  "validateTitle title =
     (case title of
        JStr s \<Rightarrow>
          if length (trim s) = 0 then Some TitleRequired
          else if length (trim s) < 2 \<or> length (trim s) > 26 then Some TitleLength
          else None
      | _ \<Rightarrow> Some TitleRequired)"

definition validateContent :: "prim \<Rightarrow> client_error option" where
  "validateContent content =
     (case content of
        JStr s \<Rightarrow>
          if length (trim s) = 0 then Some ContentRequired
          else if length (trim s) < 2 \<or> length (trim s) > 10000 then Some ContentLength
          else None
      | _ \<Rightarrow> Some ContentRequired)"

text \<open>
  The \<open>imageIds\<close> argument: absent, \<open>null\<close>, something that is no array, or an array
  (of primitives).
\<close>

datatype ids_arg = IdsUndefined | IdsNull | IdsNotArray | IdsArray "prim list"

definition normalizeImageIds ::
  "(jsstring \<Rightarrow> jsnum) \<Rightarrow> ids_arg \<Rightarrow> jsnum list \<Rightarrow> client_error + jsnum list" where
  "normalizeImageIds parseNum imageIds defaultValue =
     (case imageIds of
        IdsUndefined \<Rightarrow> Inr defaultValue
      | IdsNull \<Rightarrow> Inr defaultValue
      | IdsNotArray \<Rightarrow> Inl ImageIdsNotArray
      | IdsArray ids \<Rightarrow> Inr (filter (\<lambda>n. n \<noteq> JNaN) (map (ToNumber parseNum) ids)))"

text \<open>The string held by a value that passed \<open>validateTitle\<close> or \<open>validateContent\<close>.\<close>

fun str_of :: "prim \<Rightarrow> jsstring" where
  "str_of (JStr s) = s"
| "str_of _ = []"

record create_args =
  title :: prim
  content :: prim
  imageIds :: ids_arg
  primaryImageId :: prim

definition createPost ::
  "(jsstring \<Rightarrow> jsnum) \<Rightarrow> (request \<Rightarrow> 'e + 'd option) \<Rightarrow> create_args \<Rightarrow> ('e, 'd) outcome" where
  "createPost parseNum http args =
     (case validateTitle (title args) of
        Some err \<Rightarrow> throw err
      | None \<Rightarrow>
     (case validateContent (content args) of
        Some err \<Rightarrow> throw err
      | None \<Rightarrow>
     (case normalizeImageIds parseNum (imageIds args) [] of
        Inl err \<Rightarrow> throw err
      | Inr normalizedImageIds \<Rightarrow>
          call http (POST_posts
            \<lparr> b_title = trim (str_of (title args)),
              b_content = trim (str_of (content args)),
              b_imageIds = normalizedImageIds,
              b_primaryImageId =
                (if primaryImageId args \<noteq> JUndefined
                    \<and> primaryImageId args \<in> set (map JNum normalizedImageIds)
                 then Some (primaryImageId args) else None) \<rparr>))))"

text \<open>
  The list options \<open>{ cursor, sort = 'desc', limit = 10 }\<close>; a default applies to an
  \<open>undefined\<close> field.
\<close>

record list_args =
  cursor :: prim
  sort :: prim
  limit :: prim

definition list_query_of :: "(jsstring \<Rightarrow> jsnum) \<Rightarrow> rat \<Rightarrow> list_args \<Rightarrow> list_query" where
  "list_query_of parseNum dflt args =
     (let limit0 = (if limit args = JUndefined then JNum (JFin dflt) else limit args);
          sort0 = (if sort args = JUndefined then JStr (utf16 ''desc'') else sort args);
          n = ToNumber parseNum limit0;
          safeLimit = Math_min (Math_max (if num_truthy n then n else JFin dflt) (JFin 1)) (JFin 50);
          safeSort = (if sort0 = JStr (utf16 ''asc'') then Asc else Desc)
      in \<lparr> q_sort = safeSort, q_limit = safeLimit,
           q_cursor = (if cursor args \<noteq> JUndefined \<and> cursor args \<noteq> JNull \<and> cursor args \<noteq> JStr []
                       then Some (cursor args) else None) \<rparr>)"

definition getPosts ::
  "(jsstring \<Rightarrow> jsnum) \<Rightarrow> (request \<Rightarrow> 'e + 'd option) \<Rightarrow> list_args \<Rightarrow> ('e, 'd) outcome" where
  "getPosts parseNum http args = call http (GET_posts (list_query_of parseNum 10 args))"

definition missing_id :: "prim \<Rightarrow> bool" where
  "missing_id v \<longleftrightarrow> v = JUndefined \<or> v = JNull \<or> v = JStr []"

definition getPost :: "(request \<Rightarrow> 'e + 'd option) \<Rightarrow> prim \<Rightarrow> ('e, 'd) outcome" where
  "getPost http postId =
     (if missing_id postId then throw PostIdRequired else call http (GET_post postId))"

text \<open>
  The fields of \<open>updatePost\<close>'s second argument; \<open>imageIds\<close> is normalised when it is
  not \<open>undefined\<close> (\<open>null\<close> gives the default \<open>[]\<close>).
\<close>

record update_args =
  up_title :: prim
  up_content :: prim
  up_imageIds :: ids_arg

definition updatePost ::
  "(jsstring \<Rightarrow> jsnum) \<Rightarrow> (request \<Rightarrow> 'e + 'd option) \<Rightarrow> prim \<Rightarrow> update_args \<Rightarrow> ('e, 'd) outcome" where
  "updatePost parseNum http postId args =
     (if missing_id postId then throw PostIdRequired
      else
     (case (if up_title args \<noteq> JUndefined then validateTitle (up_title args) else None) of
        Some err \<Rightarrow> throw err
      | None \<Rightarrow>
     (case (if up_content args \<noteq> JUndefined then validateContent (up_content args) else None) of
        Some err \<Rightarrow> throw err
      | None \<Rightarrow>
     (case (if up_imageIds args \<noteq> IdsUndefined
            then map_sum id Some (normalizeImageIds parseNum (up_imageIds args) [])
            else Inr None) of
        Inl err \<Rightarrow> throw err
      | Inr ids \<Rightarrow>
          let payload =
            \<lparr> u_title = (if up_title args \<noteq> JUndefined
                          then Some (trim (str_of (up_title args))) else None),
              u_content = (if up_content args \<noteq> JUndefined
                            then Some (trim (str_of (up_content args))) else None),
              u_imageIds = ids \<rparr>
          in if u_title payload = None \<and> u_content payload = None \<and> u_imageIds payload = None
             then throw NothingToUpdate
             else call http (PATCH_post postId payload)))))"

definition deletePost :: "(request \<Rightarrow> 'e + 'd option) \<Rightarrow> prim \<Rightarrow> ('e, 'd) outcome" where
  "deletePost http postId =
     (if missing_id postId then throw PostIdRequired else call http (DELETE_post postId))"

text \<open>
  A page of a cursor-paginated list, as the page controllers read it: every field may be
  missing or \<open>null\<close> (\<open>None\<close>).
\<close>

record 'p page =
  pg_items :: "'p list option"
  pg_count :: "nat option"
  pg_hasNext :: "bool option"
  pg_nextCursor :: "prim option"

text \<open>\<open>getMyPosts\<close> replaces a missing \<open>data\<close> by \<open>{ posts: [], count: 0, nextCursor: null }\<close>.\<close>

definition getMyPosts ::
  "(jsstring \<Rightarrow> jsnum) \<Rightarrow> (request \<Rightarrow> 'e + 'p page option) \<Rightarrow> list_args \<Rightarrow> ('e, 'p page) outcome" where
  "getMyPosts parseNum http args =
     (case call http (GET_posts_me (list_query_of parseNum 20 args)) of
        (reqs, Inl e) \<Rightarrow> (reqs, Inl e)
      | (reqs, Inr None) \<Rightarrow>
          (reqs, Inr (Some \<lparr> pg_items = Some [], pg_count = Some 0, pg_hasNext = None,
                            pg_nextCursor = None \<rparr>))
      | (reqs, Inr (Some d)) \<Rightarrow> (reqs, Inr (Some d)))"


section \<open>The image and feedback API clients\<close>

text \<open>The daily quota of AI generations, \<open>{ remaining, limit, used }\<close>.\<close>

record quota =
  remaining :: int
  limit_of :: int
  used :: int

definition AI_DAILY_LIMIT :: int where
  "AI_DAILY_LIMIT = 5"

definition quota_fallback :: quota where
  "quota_fallback = \<lparr> remaining = AI_DAILY_LIMIT, limit_of = AI_DAILY_LIMIT, used = 0 \<rparr>"

text \<open>
  \<open>getAiGenerationRemaining\<close> wraps the call in \<open>try\<close>/\<open>catch\<close>: it returns a quota in
  every case, and the error is only logged.
\<close>

definition getAiGenerationRemaining ::
  "(request \<Rightarrow> 'e + quota option) \<Rightarrow> request list \<times> quota" where
  "getAiGenerationRemaining http =
     ([GET_ai_generations_remaining],
      case http GET_ai_generations_remaining of
        Inl e \<Rightarrow> quota_fallback
      | Inr None \<Rightarrow> quota_fallback
      | Inr (Some d) \<Rightarrow> d)"

text \<open>
  The answer of \<open>checkAiGenerationLimit\<close>: \<open>{ canGenerate: false, remaining: 0, message }\<close>
  or \<open>{ canGenerate: true, remaining, limit }\<close>.
\<close>

record limit_check =
  canGenerate :: bool
  lc_remaining :: int
  lc_limit :: "int option"
  lc_message :: bool

definition checkAiGenerationLimit ::
  "(request \<Rightarrow> 'e + quota option) \<Rightarrow> request list \<times> limit_check" where
  "checkAiGenerationLimit http =
     (case getAiGenerationRemaining http of
        (reqs, q) \<Rightarrow>
          if remaining q \<le> 0
          then (reqs, \<lparr> canGenerate = False, lc_remaining = 0, lc_limit = None, lc_message = True \<rparr>)
          else (reqs, \<lparr> canGenerate = True, lc_remaining = remaining q,
                        lc_limit = Some (limit_of q), lc_message = False \<rparr>))"

text \<open>\<open>saveImageMetadata(metadata, options)\<close>; \<open>None\<close> is a missing \<open>metadata\<close>.\<close>

definition saveImageMetadata ::
  "(request \<Rightarrow> 'e + 'd option) \<Rightarrow> metadata option \<Rightarrow> bool \<Rightarrow> ('e, 'd) outcome" where
  "saveImageMetadata http md aiGenerated =
     (case md of
        None \<Rightarrow> throw MetadataRequired
      | Some m \<Rightarrow>
          if \<not> truthy (storedFilename m) then throw MetadataRequired
          else call http (POST_images_metadata m aiGenerated))"

definition getImage :: "(request \<Rightarrow> 'e + 'd option) \<Rightarrow> prim \<Rightarrow> ('e, 'd) outcome" where
  "getImage http imageId =
     (if missing_id imageId then throw ImageIdRequired else call http (GET_image imageId))"

definition deleteImage :: "(request \<Rightarrow> 'e + 'd option) \<Rightarrow> prim \<Rightarrow> ('e, 'd) outcome" where
  "deleteImage http imageId =
     (if missing_id imageId then throw ImageIdRequired else call http (DELETE_image imageId))"

definition submitFeedback ::
  "(request \<Rightarrow> 'e + 'd option) \<Rightarrow> feedback option \<Rightarrow> ('e, 'd) outcome" where
  "submitFeedback http feedbackData = call http (POST_feedback feedbackData)"


section \<open>The AI proxy route of the server\<close>

text \<open>
  \<open>POST /api/ai/generate-image\<close>. The environment gives \<open>GEMINI_API_KEY\<close> (\<open>None\<close>: not
  set); \<open>req.body\<close> is \<open>None\<close> when no body was parsed, and destructuring it throws. The
  call to the Gemini API is a parameter; the handler returns the calls it made and the
  response it sent. Of the JSON bodies of error responses the \<open>code\<close> field is kept.
\<close>

record image_body =
  prompt :: prim
  profileImageBase64 :: prim
  profileImageMimeType :: prim
  referenceImageBase64 :: prim
  referenceImageMimeType :: prim

datatype part =
    Text_part prim             \<comment> \<open>\<open>{ text: prompt }\<close>\<close>
  | Inline_data prim prim      \<comment> \<open>\<open>{ inline_data: { data, mime_type } }\<close>\<close>

record gemini_call =
  gc_key :: jsstring
  gc_parts :: "part list"

text \<open>
  The answer of the \<open>fetch\<close>: it throws (also when the body of a 2xx response is no JSON),
  or the response is not \<open>ok\<close> and has a status, or it is \<open>ok\<close> and
  \<open>data.candidates?.[0]?.content?.parts || []\<close> is a list of parts, each with its
  \<open>inlineData\<close> (\<open>data\<close> and \<open>mimeType\<close>) if it has one.
\<close>

datatype gemini_result =
    Gemini_throws
  | Gemini_not_ok nat
  | Gemini_ok "(prim \<times> prim) option list"

datatype ai_code =
    API_KEY_NOT_CONFIGURED | PROMPT_REQUIRED | PROFILE_IMAGE_REQUIRED
  | IMAGE_GENERATION_FAILED | NO_IMAGE_RESULT | INTERNAL_ERROR

datatype ai_response =
    Error_json nat ai_code     \<comment> \<open>\<open>res.status(n).json({ error, code })\<close>\<close>
  | Image_json prim prim       \<comment> \<open>\<open>res.json({ success: true, image: { data, mimeType } })\<close>\<close>

definition or_default :: "prim \<Rightarrow> string \<Rightarrow> prim" where
  "or_default v d = (if truthy v then v else JStr (utf16 d))"

text \<open>The loop over the parts: the first part with \<open>inlineData\<close>.\<close>

fun first_inline :: "(prim \<times> prim) option list \<Rightarrow> (prim \<times> prim) option" where
  "first_inline [] = None"
| "first_inline (None # ps) = first_inline ps"
| "first_inline (Some (d, m) # ps) = Some (d, or_default m ''image/png'')"

definition generate_image ::
  "(gemini_call \<Rightarrow> gemini_result) \<Rightarrow> jsstring option \<Rightarrow> image_body option
     \<Rightarrow> gemini_call list \<times> ai_response" where
  "generate_image gemini env_key body =
     (case env_key of
        None \<Rightarrow> ([], Error_json 500 API_KEY_NOT_CONFIGURED)
      | Some apiKey \<Rightarrow>
          if apiKey = [] then ([], Error_json 500 API_KEY_NOT_CONFIGURED)
          else
     (case body of
        None \<Rightarrow> ([], Error_json 500 INTERNAL_ERROR)
      | Some b \<Rightarrow>
          if \<not> truthy (prompt b) then ([], Error_json 400 PROMPT_REQUIRED)
          else if \<not> truthy (profileImageBase64 b) then ([], Error_json 400 PROFILE_IMAGE_REQUIRED)
          else
            let parts =
                  [Text_part (prompt b),
                   Inline_data (profileImageBase64 b)
                     (or_default (profileImageMimeType b) ''image/jpeg'')]
                  @ (if truthy (referenceImageBase64 b)
                     then [Inline_data (referenceImageBase64 b)
                             (or_default (referenceImageMimeType b) ''image/jpeg'')]
                     else []);
                c = \<lparr> gc_key = apiKey, gc_parts = parts \<rparr>
            in (case gemini c of
                  Gemini_throws \<Rightarrow> ([c], Error_json 500 INTERNAL_ERROR)
                | Gemini_not_ok status \<Rightarrow> ([c], Error_json status IMAGE_GENERATION_FAILED)
                | Gemini_ok candidates \<Rightarrow>
                    (case first_inline candidates of
                       None \<Rightarrow> ([c], Error_json 500 NO_IMAGE_RESULT)
                     | Some (d, m) \<Rightarrow> ([c], Image_json d m)))))"


section \<open>The image proxy of the server\<close>

text \<open>\<open>s.includes(t)\<close>: \<open>t\<close> occurs in \<open>s\<close> as a contiguous run.\<close>

fun js_includes :: "'a list \<Rightarrow> 'a list \<Rightarrow> bool" where
  "js_includes [] t = (t = [])"
| "js_includes (c # s) t = (take (length t) (c # s) = t \<or> js_includes s t)"

definition allowedDomains :: "jsstring list" where
  "allowedDomains =
     [utf16 ''ktb-community-images.s3.ap-northeast-2.amazonaws.com'',
      utf16 ''s3.ap-northeast-2.amazonaws.com'']"

datatype fetch_result =
    Fetch_throws
  | Fetch_not_ok nat
  | Fetch_ok "jsstring option" "8 word list"   \<comment> \<open>the \<open>content-type\<close> header and the bytes\<close>

datatype proxy_error = Url_required | Domain_not_allowed | Failed_to_fetch | Failed_to_proxy

datatype proxy_response =
    Proxy_error nat proxy_error              \<comment> \<open>\<open>res.status(n).json({ error })\<close>\<close>
  | Proxy_image jsstring "8 word list"       \<comment> \<open>the \<open>Content-Type\<close> sent and the bytes\<close>

text \<open>
  \<open>GET /api/image-proxy\<close> with the query parameter \<open>url\<close> (\<open>None\<close>: absent).
  \<open>hostname\<close> stands for \<open>new URL(url).hostname\<close> of the platform, \<open>None\<close> when the
  constructor throws. The handler returns the URLs it fetched and the response.
\<close>

definition image_proxy ::
  "(jsstring \<Rightarrow> jsstring option) \<Rightarrow> (jsstring \<Rightarrow> fetch_result) \<Rightarrow> jsstring option
     \<Rightarrow> jsstring list \<times> proxy_response" where
  "image_proxy hostname fetch url_param =
     (case url_param of
        None \<Rightarrow> ([], Proxy_error 400 Url_required)
      | Some url \<Rightarrow>
          if url = [] then ([], Proxy_error 400 Url_required)
          else
     (case hostname url of
        None \<Rightarrow> ([], Proxy_error 500 Failed_to_proxy)
      | Some host \<Rightarrow>
          if \<not> list_ex (\<lambda>domain. js_includes host domain) allowedDomains
          then ([], Proxy_error 403 Domain_not_allowed)
          else
            (case fetch url of
               Fetch_throws \<Rightarrow> ([url], Proxy_error 500 Failed_to_proxy)
             | Fetch_not_ok status \<Rightarrow> ([url], Proxy_error status Failed_to_fetch)
             | Fetch_ok contentType bytes \<Rightarrow>
                 ([url],
                  Proxy_image
                    (case contentType of
                       None \<Rightarrow> utf16 ''image/jpeg''
                     | Some ct \<Rightarrow> if ct = [] then utf16 ''image/jpeg'' else ct)
                    bytes))))"


section \<open>The write page: uploaded images\<close>

text \<open>
  \<open>uploadedImages\<close> is an array of image objects of any type \<open>'a\<close>; an entry \<open>None\<close>
  is \<open>undefined\<close>, which the array can only get where the source reads it out of range.
  The indices come from \<open>dataset.index\<close> of the rendered items and from \<open>forEach\<close>, so
  they are natural numbers. Revoking blob URLs and re-rendering leave these variables as
  they are and are not modelled.
\<close>

record 'a images_state =
  uploadedImages :: "'a option list"
  primaryImageIndex :: nat
  draggedIndex :: "nat option"
  isDragging :: bool

text \<open>\<open>a.splice(i, 1)\<close> and \<open>a.splice(i, 0, x)\<close>, for \<open>i\<close> in and out of range.\<close>

definition splice_delete :: "nat \<Rightarrow> 'a list \<Rightarrow> 'a list" where
  "splice_delete i xs = take i xs @ drop (Suc i) xs"

definition splice_insert :: "nat \<Rightarrow> 'a \<Rightarrow> 'a list \<Rightarrow> 'a list" where
  "splice_insert i x xs = take i xs @ x # drop i xs"

definition at_index :: "'a option list \<Rightarrow> nat \<Rightarrow> 'a option" where
  "at_index xs i = (if i < length xs then xs ! i else None)"

definition removeImage :: "nat \<Rightarrow> 'a images_state \<Rightarrow> 'a images_state" where
  "removeImage index st =
     (let imgs = splice_delete index (uploadedImages st);
          p = primaryImageIndex st
      in st\<lparr> uploadedImages := imgs,
              primaryImageIndex :=
                (if length imgs = 0 then 0
                 else if index < p then p - 1
                 else if index = p then 0
                 else p) \<rparr>)"

text \<open>
  The \<open>drop\<close> listener of \<open>initDragAndDrop\<close>. The event either hits no preview item, or
  an item whose \<open>dataset.index\<close> parses to a number or to \<open>NaN\<close>.
\<close>

datatype drop_target = No_item | Item_NaN | Item_index nat

definition end_drag :: "'a images_state \<Rightarrow> 'a images_state" where
  "end_drag st = st\<lparr> isDragging := False, draggedIndex := None \<rparr>"

definition on_drop :: "drop_target \<Rightarrow> 'a images_state \<Rightarrow> 'a images_state" where
  "on_drop target st =
     (case target of
        No_item \<Rightarrow> end_drag st
      | Item_NaN \<Rightarrow> end_drag st
      | Item_index targetIndex \<Rightarrow>
          (case draggedIndex st of
             None \<Rightarrow> end_drag st
           | Some dragged \<Rightarrow>
               if dragged = targetIndex then end_drag st
               else
                 let p = primaryImageIndex st;
                     p' = (if p = dragged then targetIndex
                           else if dragged < p \<and> targetIndex \<ge> p then p - 1
                           else if dragged > p \<and> targetIndex \<le> p then p + 1
                           else p);
                     draggedItem = at_index (uploadedImages st) dragged;
                     imgs = splice_insert targetIndex draggedItem
                              (splice_delete dragged (uploadedImages st))
                 in end_drag (st\<lparr> uploadedImages := imgs, primaryImageIndex := p' \<rparr>)))"

text \<open>
  The primary image as \<open>renderImagePreviews\<close> shows it: the index, or 0 when the index
  is out of range.
\<close>

definition effectivePrimaryIndex :: "'a images_state \<Rightarrow> nat" where
  "effectivePrimaryIndex st =
     (if primaryImageIndex st < length (uploadedImages st) then primaryImageIndex st else 0)"

text \<open>The bound of the primary index: inside the array, and 0 for the empty array.\<close>

definition primary_in_bounds :: "'a images_state \<Rightarrow> bool" where
  "primary_in_bounds st \<longleftrightarrow>
     (if uploadedImages st = [] then primaryImageIndex st = 0
      else primaryImageIndex st < length (uploadedImages st))"


text \<open>
  The \<open>dragstart\<close> listener, when the event hits the preview item of index \<open>index\<close>.
  \<open>renderImagePreviews\<close> returns at once while \<open>isDragging\<close> is set (unless forced), so
  during a drag the items keep the \<open>dataset.index\<close> of the last rendering, whatever
  happens to the array in between.
\<close>

definition on_dragstart :: "nat \<Rightarrow> 'a images_state \<Rightarrow> 'a images_state" where
  "on_dragstart index st = st\<lparr> isDragging := True, draggedIndex := Some index \<rparr>"

text \<open>
  The \<open>catch\<close> block of an upload in \<open>addImages\<close>: the image whose upload failed is
  taken out of the array if \<open>indexOf\<close> finds it; the primary index is not touched.
  \<open>indexOf\<close> compares object identity, which is equality for distinct image objects.
\<close>

fun indexOf :: "'a option list \<Rightarrow> 'a \<Rightarrow> nat option" where
  "indexOf [] x = None"
| "indexOf (y # ys) x = (if y = Some x then Some 0 else map_option Suc (indexOf ys x))"

definition upload_failed :: "'a \<Rightarrow> 'a images_state \<Rightarrow> 'a images_state" where
  "upload_failed tempImage st =
     (case indexOf (uploadedImages st) tempImage of
        None \<Rightarrow> st
      | Some idx \<Rightarrow> st\<lparr> uploadedImages := splice_delete idx (uploadedImages st) \<rparr>)"


section \<open>The write page: the draft in local storage\<close>

text \<open>
  \<open>localStorage\<close> maps keys to texts. \<open>JSON.stringify\<close> and \<open>JSON.parse\<close> belong to the
  platform and are parameters: \<open>stringify\<close> gives the text of a value, \<open>parse\<close> the value
  of a text, or \<open>None\<close> when it throws. The values are the JSON values.
\<close>

datatype json =
    Json_null
  | Json_bool bool
  | Json_num jsnum
  | Json_str jsstring
  | Json_arr "json list"
  | Json_obj "(string \<times> json) list"

definition DRAFT_STORAGE_KEY :: jsstring where
  "DRAFT_STORAGE_KEY = utf16 ''anoo_post_draft''"

text \<open>
  The part of the page that the draft functions and \<open>handleSubmit\<close> read and write:
  the two inputs (\<open>None\<close>: the element is missing), the storage, the flag, and where the
  page went.
\<close>

record draft_state =
  post_title :: "jsstring option"
  post_content :: "jsstring option"
  localStorage :: "jsstring \<rightharpoonup> jsstring"
  hasUnsavedChanges :: bool
  location :: "prim option"

definition draft_object :: "jsstring \<Rightarrow> jsstring \<Rightarrow> jsstring \<Rightarrow> json" where
  "draft_object t c savedAt =
     Json_obj [(''title'', Json_str t), (''content'', Json_str c), (''savedAt'', Json_str savedAt)]"

text \<open>\<open>saveDraft\<close>; \<open>now\<close> is \<open>new Date().toISOString()\<close>.\<close>

definition saveDraft :: "(json \<Rightarrow> jsstring) \<Rightarrow> jsstring \<Rightarrow> draft_state \<Rightarrow> draft_state" where
  "saveDraft stringify now st =
     (let t = (case post_title st of None \<Rightarrow> [] | Some v \<Rightarrow> v);
          c = (case post_content st of None \<Rightarrow> [] | Some v \<Rightarrow> v)
      in if t = [] \<and> c = []
         then st\<lparr> localStorage := (localStorage st)(DRAFT_STORAGE_KEY := None),
                  hasUnsavedChanges := False \<rparr>
         else st\<lparr> localStorage :=
                    (localStorage st)(DRAFT_STORAGE_KEY \<mapsto> stringify (draft_object t c now)),
                  hasUnsavedChanges := True \<rparr>)"

text \<open>\<open>loadDraft\<close> returns the parsed value or \<open>null\<close> (\<open>None\<close>), and the state.\<close>

definition loadDraft ::
  "(jsstring \<Rightarrow> json option) \<Rightarrow> draft_state \<Rightarrow> json option \<times> draft_state" where
  "loadDraft parse st =
     (case localStorage st DRAFT_STORAGE_KEY of
        None \<Rightarrow> (None, st)
      | Some saved \<Rightarrow>
          if saved = [] then (None, st)
          else (case parse saved of
                  Some v \<Rightarrow> (Some v, st)
                | None \<Rightarrow> (None, st\<lparr> localStorage := (localStorage st)(DRAFT_STORAGE_KEY := None) \<rparr>)))"

definition clearDraft :: "draft_state \<Rightarrow> draft_state" where
  "clearDraft st =
     st\<lparr> localStorage := (localStorage st)(DRAFT_STORAGE_KEY := None), hasUnsavedChanges := False \<rparr>"

text \<open>A property of an object, as \<open>draft.title\<close> reads it.\<close>

fun json_prop :: "json \<Rightarrow> string \<Rightarrow> json option" where
  "json_prop (Json_obj kvs) k = map_of kvs k"
| "json_prop _ k = None"

text \<open>The checks of the page's own \<open>validateTitle()\<close> and \<open>validateContent()\<close>.\<close>

definition page_validateTitle :: "jsstring \<Rightarrow> bool" where
  "page_validateTitle v \<longleftrightarrow>
     \<not> (trim v = [] \<or> length (trim v) < 2) \<and> \<not> length (trim v) > 26"

definition page_validateContent :: "jsstring \<Rightarrow> bool" where
  "page_validateContent v \<longleftrightarrow>
     \<not> (trim v = [] \<or> length (trim v) < 2) \<and> \<not> length (trim v) > 10000"

text \<open>
  \<open>handleSubmit\<close>. With an input missing the page's validators throw, which leaves the
  state as it is, like a failed validation. \<open>notExpired\<close> is the result of \<open>checkExpiredImages()\<close>; \<open>ids\<close> and \<open>primary\<close> are the image ids and the primary
  image id that \<open>buildCreatePostRequest()\<close> takes from the image state. The created post
  comes back as its \<open>postId\<close>. The function returns the wrapper calls and the state; a
  failure ends in a toast and leaves the state as it is.
\<close>

definition handleSubmit ::
  "(jsstring \<Rightarrow> jsnum) \<Rightarrow> (request \<Rightarrow> 'e + prim option) \<Rightarrow> bool \<Rightarrow> ids_arg \<Rightarrow> prim
     \<Rightarrow> draft_state \<Rightarrow> request list \<times> draft_state" where
  "handleSubmit parseNum http notExpired ids primary st =
     (let t = (case post_title st of None \<Rightarrow> [] | Some v \<Rightarrow> v);
          c = (case post_content st of None \<Rightarrow> [] | Some v \<Rightarrow> v)
      in if \<not> page_validateTitle t \<or> \<not> page_validateContent c then ([], st)
         else if \<not> notExpired then ([], st)
         else
           (case createPost parseNum http
                   \<lparr> title = JStr (trim t), content = JStr (trim c), imageIds = ids,
                     primaryImageId = primary \<rparr> of
              (reqs, Inl err) \<Rightarrow> (reqs, st)
            | (reqs, Inr None) \<Rightarrow> (reqs, st)
            | (reqs, Inr (Some postId)) \<Rightarrow>
                if postId = JUndefined then (reqs, st)
                else (reqs, (clearDraft st)\<lparr> hasUnsavedChanges := False,
                                              location := Some postId \<rparr>)))"


section \<open>The shared modal\<close>

text \<open>
  Each \<open>openModal\<close> call creates four new closures (\<open>handleConfirm\<close>, \<open>handleCancel\<close>,
  \<open>handleOverlayClick\<close>, \<open>handleKeydown\<close>) over its \<open>onConfirm\<close> and \<open>options.onCancel\<close>.
  A \<open>handlers\<close> value stands for the four closures of one call; \<open>h_id\<close> is their
  identity, which \<open>removeEventListener\<close> compares. A callback is a label of type \<open>'c\<close>
  (\<open>None\<close>: no function was given), and calling it is recorded in \<open>fired\<close>; what a
  callback does beyond that is its caller's business and not part of the modal.
\<close>

record 'c handlers =
  h_id :: nat
  h_onConfirm :: "'c option"
  h_onCancel :: "'c option"

text \<open>
  The listener lists of the four event targets, \<open>currentModalHandlers\<close>, the \<open>hidden\<close>
  attribute of the overlay, and whether the modal's elements are in the document. Texts,
  classes and colours of the modal are left out.
\<close>

record 'c modal_state =
  elements_present :: bool
  overlay_hidden :: bool
  confirmBtn_click :: "'c handlers list"
  cancelBtn_click :: "'c handlers list"
  modalOverlay_click :: "'c handlers list"
  document_keydown :: "'c handlers list"
  currentModalHandlers :: "'c handlers option"
  next_id :: nat
  fired :: "'c list"

definition removeEventListener :: "'c handlers \<Rightarrow> 'c handlers list \<Rightarrow> 'c handlers list" where
  "removeEventListener h ls = filter (\<lambda>l. h_id l \<noteq> h_id h) ls"

definition addEventListener :: "'c handlers \<Rightarrow> 'c handlers list \<Rightarrow> 'c handlers list" where
  "addEventListener h ls = (if h_id h \<in> set (map h_id ls) then ls else ls @ [h])"

definition cleanupModalHandlers :: "'c modal_state \<Rightarrow> 'c modal_state" where
  "cleanupModalHandlers st =
     (case currentModalHandlers st of
        None \<Rightarrow> st
      | Some h \<Rightarrow>
          st\<lparr> confirmBtn_click := removeEventListener h (confirmBtn_click st),
              cancelBtn_click := removeEventListener h (cancelBtn_click st),
              modalOverlay_click := removeEventListener h (modalOverlay_click st),
              document_keydown := removeEventListener h (document_keydown st),
              currentModalHandlers := None \<rparr>)"

definition closeModal :: "'c modal_state \<Rightarrow> 'c modal_state" where
  "closeModal st =
     (if elements_present st then cleanupModalHandlers (st\<lparr> overlay_hidden := True \<rparr>) else st)"

definition openModal :: "'c option \<Rightarrow> 'c option \<Rightarrow> 'c modal_state \<Rightarrow> 'c modal_state" where
  "openModal onConfirm onCancel st =
     (if \<not> elements_present st then st
      else
        let st1 = cleanupModalHandlers st;
            h = \<lparr> h_id = next_id st1, h_onConfirm = onConfirm, h_onCancel = onCancel \<rparr>
        in st1\<lparr> confirmBtn_click := addEventListener h (confirmBtn_click st1),
                cancelBtn_click := addEventListener h (cancelBtn_click st1),
                modalOverlay_click := addEventListener h (modalOverlay_click st1),
                document_keydown := addEventListener h (document_keydown st1),
                currentModalHandlers := Some h,
                next_id := Suc (next_id st1),
                overlay_hidden := False \<rparr>)"

definition call_back :: "'c option \<Rightarrow> 'c modal_state \<Rightarrow> 'c modal_state" where
  "call_back cb st = (case cb of None \<Rightarrow> st | Some c \<Rightarrow> st\<lparr> fired := fired st @ [c] \<rparr>)"

definition handleConfirm :: "'c handlers \<Rightarrow> 'c modal_state \<Rightarrow> 'c modal_state" where
  "handleConfirm h st = closeModal (call_back (h_onConfirm h) st)"

definition handleCancel :: "'c handlers \<Rightarrow> 'c modal_state \<Rightarrow> 'c modal_state" where
  "handleCancel h st = closeModal (call_back (h_onCancel h) st)"

text \<open>
  Dispatching an event to a target: the listeners registered when the dispatch starts
  run in order, each only if it is still registered when its turn comes.
\<close>

fun dispatch ::
  "('c handlers \<Rightarrow> 'c modal_state \<Rightarrow> 'c modal_state) \<Rightarrow> ('c modal_state \<Rightarrow> 'c handlers list)
     \<Rightarrow> 'c handlers list \<Rightarrow> 'c modal_state \<Rightarrow> 'c modal_state" where
  "dispatch run target [] st = st"
| "dispatch run target (h # hs) st =
     dispatch run target hs
       (if h_id h \<in> set (map h_id (target st)) then run h st else st)"

text \<open>
  The user's actions on an open modal. A click on a button also reaches the overlay's
  listeners, whose \<open>handleOverlayClick\<close> does nothing unless the overlay itself was hit.
\<close>

definition click_confirm :: "'c modal_state \<Rightarrow> 'c modal_state" where
  "click_confirm st =
     (let st1 = dispatch handleConfirm confirmBtn_click (confirmBtn_click st) st
      in dispatch (\<lambda>h s. s) modalOverlay_click (modalOverlay_click st1) st1)"

definition click_cancel :: "'c modal_state \<Rightarrow> 'c modal_state" where
  "click_cancel st =
     (let st1 = dispatch handleCancel cancelBtn_click (cancelBtn_click st) st
      in dispatch (\<lambda>h s. s) modalOverlay_click (modalOverlay_click st1) st1)"

definition click_overlay :: "'c modal_state \<Rightarrow> 'c modal_state" where
  "click_overlay st = dispatch handleCancel modalOverlay_click (modalOverlay_click st) st"

definition press_escape :: "'c modal_state \<Rightarrow> 'c modal_state" where
  "press_escape st = dispatch handleCancel document_keydown (document_keydown st) st"

text \<open>What the page and the user do to the modal, and a run of such steps.\<close>

datatype 'c modal_action =
    Open_modal "'c option" "'c option"
  | Close_modal
  | Click_confirm
  | Click_cancel
  | Click_overlay
  | Press_escape

fun modal_step :: "'c modal_state \<Rightarrow> 'c modal_action \<Rightarrow> 'c modal_state" where
  "modal_step st (Open_modal onConfirm onCancel) = openModal onConfirm onCancel st"
| "modal_step st Close_modal = closeModal st"
| "modal_step st Click_confirm = click_confirm st"
| "modal_step st Click_cancel = click_cancel st"
| "modal_step st Click_overlay = click_overlay st"
| "modal_step st Press_escape = press_escape st"

definition modal_run :: "'c modal_state \<Rightarrow> 'c modal_action list \<Rightarrow> 'c modal_state" where
  "modal_run st acts = foldl modal_step st acts"

text \<open>The page after \<open>loadModal\<close>: the elements are there, hidden, with no listener.\<close>

definition modal_loaded :: "'c modal_state" where
  "modal_loaded =
     \<lparr> elements_present = True, overlay_hidden = True, confirmBtn_click = [],
       cancelBtn_click = [], modalOverlay_click = [], document_keydown = [],
       currentModalHandlers = None, next_id = 0, fired = [] \<rparr>"


section \<open>Cursor pagination in the page controllers\<close>

text \<open>
  The feed page is \<open>src/unnamed/part_002\<close>. The sources hold the profile page and the
  post page twice, and the two copies load their list differently. The profile page of
  \<open>src/unnamed/part_001\<close> and the post page of \<open>src/public/pages/post/post-detail.js\<close>
  load the list page by page, with a cursor. The profile page of
  \<open>src/public/pages/profile/profile.js\<close> and the post page of \<open>src/unnamed/part_001\<close>
  load it with one request that carries no cursor. All four are given here; the functions
  of \<open>src/unnamed/part_001\<close> have the suffix \<open>_part_001\<close>.
\<close>

text \<open>\<open>a ?? b\<close> on primitives.\<close>

definition nullish :: "prim \<Rightarrow> prim \<Rightarrow> prim" where
  "nullish a b = (if a = JUndefined \<or> a = JNull then b else a)"





text \<open>The fields of a page as the controllers read them (\<open>result?.posts ?? []\<close>, ...).\<close>

definition items_of :: "'p page option \<Rightarrow> 'p list" where
  "items_of result =
     (case result of None \<Rightarrow> [] | Some r \<Rightarrow> (case pg_items r of None \<Rightarrow> [] | Some ps \<Rightarrow> ps))"

definition hasNext_of :: "'p page option \<Rightarrow> bool" where
  "hasNext_of result =
     (case result of None \<Rightarrow> False | Some r \<Rightarrow> (case pg_hasNext r of None \<Rightarrow> False | Some b \<Rightarrow> b))"

definition nextCursor_of :: "'p page option \<Rightarrow> prim" where
  "nextCursor_of result =
     (case result of None \<Rightarrow> JNull
      | Some r \<Rightarrow> (case pg_nextCursor r of None \<Rightarrow> JNull | Some c \<Rightarrow> nullish c JNull))"

text \<open>\<open>result?.count ?? items.length\<close>.\<close>

definition count_of :: "'p page option \<Rightarrow> nat" where
  "count_of result =
     (case result of
        None \<Rightarrow> length (items_of result)
      | Some r \<Rightarrow> (case pg_count r of None \<Rightarrow> length (items_of result) | Some n \<Rightarrow> n))"

subsection \<open>The feed\<close>





subsection \<open>My posts on the profile page\<close>







subsection \<open>The comments of the post page\<close>

text \<open>
  \<open>getComments\<close> of \<open>commentApi.js\<close> is not part of the sources; it is a parameter that
  takes the post id and the options of the call and throws or returns a page. Three more
  parameters stand for what the rendering relies on: \<open>createCommentElement\<close>, which goes
  through \<open>utils/format.js\<close>, gives the element of a comment or throws (\<open>None\<close>);
  \<open>formatCount\<close> of \<open>utils/format.js\<close> gives the text of a count or throws (\<open>None\<close>);
  \<open>sortComments\<close> is \<open>[...allComments].sort((a, b) => a.id - b.id)\<close>, the sort of the
  platform.
\<close>

record comment =
  c_id :: prim
  c_content :: jsstring

record comments_call =
  cc_postId :: prim
  cc_cursor :: prim
  cc_limit :: jsnum
  cc_sort :: prim

text \<open>
  The elements that the comment functions write to; \<open>None\<close>: no such element. Writing to
  a missing element throws. The spinner, the button for more comments and the icons are
  left out: the code tests for them before it uses them.
\<close>

record ('n, 't) comments_dom =
  comments_list :: "'n list option"     \<comment> \<open>the comment elements in \<open>#comments-list\<close>\<close>
  comments_empty :: "bool option"       \<comment> \<open>whether \<open>#comments-empty\<close> has the class \<open>show\<close>\<close>
  comment_count_label :: "nat option"   \<comment> \<open>the count written to \<open>#comment-count-label\<close>\<close>
  comments_count :: "'t option"         \<comment> \<open>the text of \<open>#comments-count\<close>\<close>

text \<open>The page of \<open>post-detail.js\<close>: the elements and the paging variables of the module.\<close>

record ('n, 't) comments_state = "('n, 't) comments_dom" +
  commentsNextCursor :: prim
  commentsHasNext :: bool
  commentsIsLoading :: bool
  allComments :: "comment list"
  commentsTotalCount :: nat

definition COMMENTS_PAGE_SIZE :: rat where
  "COMMENTS_PAGE_SIZE = 20"

text \<open>
  \<open>renderComments\<close> of \<open>post-detail.js\<close> draws \<open>allComments\<close> anew. It returns whether it
  ran to its end (\<open>False\<close>: it threw), and the state with what it had written by then.
\<close>

definition renderComments ::
  "(comment list \<Rightarrow> comment list) \<Rightarrow> (comment \<Rightarrow> 'n option) \<Rightarrow> ('n, 't) comments_state
     \<Rightarrow> bool \<times> ('n, 't) comments_state" where
  "renderComments sortComments createCommentElement st =
     (case comment_count_label st of
        None \<Rightarrow> (False, st)
      | Some label \<Rightarrow>
          let st1 = st\<lparr> comment_count_label := Some (commentsTotalCount st) \<rparr>
          in (case comments_empty st1 of
                None \<Rightarrow> (False, st1)
              | Some shown \<Rightarrow>
                  if allComments st1 = []
                  then (case comments_list st1 of
                          None \<Rightarrow> (False, st1\<lparr> comments_empty := Some True \<rparr>)
                        | Some children \<Rightarrow>
                            (True, st1\<lparr> comments_empty := Some True, comments_list := Some [] \<rparr>))
                  else (case comments_list st1 of
                          None \<Rightarrow> (False, st1\<lparr> comments_empty := Some False \<rparr>)
                        | Some children \<Rightarrow>
                            (case those (map createCommentElement (sortComments (allComments st1))) of
                               None \<Rightarrow>
                                 (False, st1\<lparr> comments_empty := Some False, comments_list := Some [] \<rparr>)
                             | Some elements \<Rightarrow>
                                 (True, st1\<lparr> comments_empty := Some False,
                                            comments_list := Some elements \<rparr>)))))"

text \<open>
  \<open>loadComments\<close> of \<open>post-detail.js\<close>; \<open>postId\<close> is \<open>getPostIdFromUrl()\<close> (\<open>None\<close>:
  the URL has none). The rendering and the writing of the count are inside the \<open>try\<close>:
  when one of them throws, the \<open>catch\<close> block empties \<open>allComments\<close> and renders again,
  with \<open>commentsHasNext\<close> and \<open>commentsNextCursor\<close> as the response has set them. The
  result gives the calls of \<open>getComments\<close>, whether the function throws (the rendering of
  the \<open>catch\<close> block threw), and the state.
\<close>

definition loadComments ::
  "(comments_call \<Rightarrow> 'e + comment page option) \<Rightarrow> (comment list \<Rightarrow> comment list)
     \<Rightarrow> (comment \<Rightarrow> 'n option) \<Rightarrow> (nat \<Rightarrow> 't option) \<Rightarrow> prim option
     \<Rightarrow> ('n, 't) comments_state \<Rightarrow> comments_call list \<times> bool \<times> ('n, 't) comments_state" where
  "loadComments getComments sortComments createCommentElement formatCount postId st =
     (case postId of
        None \<Rightarrow> ([], False, st)
      | Some pid \<Rightarrow>
          let c = \<lparr> cc_postId = pid, cc_cursor = JUndefined, cc_limit = JFin COMMENTS_PAGE_SIZE,
                    cc_sort = JStr (utf16 ''desc'') \<rparr>;
              st0 = st\<lparr> commentsNextCursor := JNull, commentsHasNext := True,
                        commentsIsLoading := True, allComments := [], commentsTotalCount := 0 \<rparr>;
              caught = (\<lambda>st1.
                 let r = renderComments sortComments createCommentElement
                           (st1\<lparr> allComments := [], commentsTotalCount := 0 \<rparr>)
                 in ([c], \<not> fst r, (snd r)\<lparr> commentsIsLoading := False \<rparr>))
          in (case getComments c of
                Inl err \<Rightarrow> caught st0
              | Inr result \<Rightarrow>
                  let r = renderComments sortComments createCommentElement
                            (st0\<lparr> commentsHasNext := hasNext_of result,
                                  commentsNextCursor := nextCursor_of result,
                                  commentsTotalCount := count_of result,
                                  allComments := items_of result \<rparr>)
                  in if \<not> fst r then caught (snd r)
                     else (case comments_count (snd r) of
                             None \<Rightarrow> caught (snd r)
                           | Some old \<Rightarrow>
                               (case formatCount (commentsTotalCount (snd r)) of
                                  None \<Rightarrow> caught (snd r)
                                | Some formatted \<Rightarrow>
                                    ([c], False, (snd r)\<lparr> comments_count := Some formatted,
                                                          commentsIsLoading := False \<rparr>)))))"






section \<open>Stand-ins for the platform and the backend\<close>

text \<open>
  Concrete parameters for evaluating the functions above: a string conversion that finds
  no number, a wrapper whose every call fails with status 500, and one whose every
  response has no \<open>data\<close>.
\<close>

definition no_number :: "jsstring \<Rightarrow> jsnum" where
  "no_number s = JNaN"

definition failing_http :: "request \<Rightarrow> nat + 'd option" where
  "failing_http r = Inl 500"

definition empty_http :: "request \<Rightarrow> nat + 'd option" where
  "empty_http r = Inr None"

text \<open>
  What it means for a client function to let a wrapper failure through: if it called
  the wrapper and that call threw \<open>e\<close>, then this was its only call (no retry) and the
  function throws \<open>e\<close> itself (no other error, no value in its place).
\<close>

definition error_propagates :: "(request \<Rightarrow> 'e + 'd option) \<Rightarrow> ('e, 'd) outcome \<Rightarrow> bool" where
  "error_propagates http out \<longleftrightarrow>
     (case fst out of
        [] \<Rightarrow> True
      | r # rs \<Rightarrow> (case http r of Inr d \<Rightarrow> True | Inl e \<Rightarrow> out = ([r], Inl (HttpError e))))"

text \<open>
  A request body without any field, a Gemini API that always answers with one image, a
  URL whose host name merely contains an allowed domain, a URL parser that gives this
  host name, and a \<open>fetch\<close> that always succeeds with two bytes and no content type.
\<close>

definition empty_body :: image_body where
  "empty_body =
     \<lparr> prompt = JUndefined, profileImageBase64 = JUndefined, profileImageMimeType = JUndefined,
       referenceImageBase64 = JUndefined, referenceImageMimeType = JUndefined \<rparr>"

definition gemini_one_image :: "gemini_call \<Rightarrow> gemini_result" where
  "gemini_one_image c = Gemini_ok [Some (JStr (utf16 ''AAAA''), JUndefined)]"

definition lookalike_url :: jsstring where
  "lookalike_url = utf16 ''http://s3.ap-northeast-2.amazonaws.com.evil.example/x.png''"

definition lookalike_host :: jsstring where
  "lookalike_host = utf16 ''s3.ap-northeast-2.amazonaws.com.evil.example''"

definition lookalike_hostname :: "jsstring \<Rightarrow> jsstring option" where
  "lookalike_hostname url = (if url = lookalike_url then Some lookalike_host else None)"

definition fetch_two_bytes :: "jsstring \<Rightarrow> fetch_result" where
  "fetch_two_bytes url = Fetch_ok None [0xFF, 0xD8]"

text \<open>
  Three images 10, 20 and 30 on the write page, nothing being dragged, with the first,
  the second or the third one primary.
\<close>

definition first_primary :: "nat images_state" where
  "first_primary =
     \<lparr> uploadedImages = [Some 10, Some 20, Some 30], primaryImageIndex = 0,
       draggedIndex = None, isDragging = False \<rparr>"

definition second_primary :: "nat images_state" where
  "second_primary =
     \<lparr> uploadedImages = [Some 10, Some 20, Some 30], primaryImageIndex = 1,
       draggedIndex = None, isDragging = False \<rparr>"

definition third_primary :: "nat images_state" where
  "third_primary =
     \<lparr> uploadedImages = [Some 10, Some 20, Some 30], primaryImageIndex = 2,
       draggedIndex = None, isDragging = False \<rparr>"

text \<open>
  The state of the listeners that the modal functions keep up: the elements exist, and
  each of the four targets has exactly the listeners of \<open>currentModalHandlers\<close>.
\<close>

definition modal_inv :: "'c modal_state \<Rightarrow> bool" where
  "modal_inv st \<longleftrightarrow>
     elements_present st \<and>
     (let ls = (case currentModalHandlers st of None \<Rightarrow> [] | Some h \<Rightarrow> [h])
      in confirmBtn_click st = ls \<and> cancelBtn_click st = ls \<and>
         modalOverlay_click st = ls \<and> document_keydown st = ls)"

text \<open>The callbacks a click invokes, as a list: none or the one given.\<close>

definition invoked :: "'c option \<Rightarrow> 'c list" where
  "invoked cb = (case cb of None \<Rightarrow> [] | Some c \<Rightarrow> [c])"

text \<open>A modal that is closed and has no listener left.\<close>

definition modal_closed :: "'c modal_state \<Rightarrow> bool" where
  "modal_closed st \<longleftrightarrow>
     overlay_hidden st \<and> currentModalHandlers st = None \<and> confirmBtn_click st = [] \<and>
     cancelBtn_click st = [] \<and> modalOverlay_click st = [] \<and> document_keydown st = []"

text \<open>
  A JSON codec that knows one text, that of the draft with title \<open>hello\<close>, a write page
  with this title typed in, and a backend that answers every call with the post id 7.
\<close>

definition hello_draft :: json where
  "hello_draft = draft_object (utf16 ''hello'') (utf16 ''dear diary'') (utf16 ''2025-01-01T00:00:00.000Z'')"

definition hello_stringify :: "json \<Rightarrow> jsstring" where
  "hello_stringify v = (if v = hello_draft then utf16 ''{hello}'' else utf16 ''{}'')"

definition hello_parse :: "jsstring \<Rightarrow> json option" where
  "hello_parse s =
     (if s = utf16 ''{hello}'' then Some hello_draft
      else if s = utf16 ''{}'' then Some (Json_obj [])
      else None)"

definition hello_page :: draft_state where
  "hello_page =
     \<lparr> post_title = Some (utf16 ''hello''), post_content = Some (utf16 ''dear diary''),
       localStorage = Map.empty, hasUnsavedChanges = False, location = None \<rparr>"

definition post_seven_http :: "request \<Rightarrow> nat + prim option" where
  "post_seven_http r = Inr (Some (JNum (JFin 7)))"













section \<open>Validation in the post API client\<close>

lemma validateTitle_bad:
  "length (trim t) < 2 \<or> 26 < length (trim t) \<Longrightarrow> \<exists>err. validateTitle (JStr t) = Some err"
  by (auto simp: validateTitle_def)

lemma validateContent_bad:
  "length (trim c) < 2 \<or> 10000 < length (trim c) \<Longrightarrow> \<exists>err. validateContent (JStr c) = Some err"
  by (auto simp: validateContent_def)

lemma validateTitle_None:
  "validateTitle v = None \<Longrightarrow> \<exists>t. v = JStr t \<and> 2 \<le> length (trim t) \<and> length (trim t) \<le> 26"
  by (cases v) (auto simp: validateTitle_def split: if_splits)

lemma validateContent_None:
  "validateContent v = None \<Longrightarrow>
     \<exists>c. v = JStr c \<and> 2 \<le> length (trim c) \<and> length (trim c) \<le> 10000"
  by (cases v) (auto simp: validateContent_def split: if_splits)

lemma createPost_rejects_title:
  fixes http :: "request \<Rightarrow> 'e + 'd option"
  assumes "validateTitle (title args) = Some err"
  shows "createPost parseNum http args = ([], Inl (ClientError err))"
  using assms by (simp add: createPost_def throw_def)

lemma createPost_rejects_content:
  fixes http :: "request \<Rightarrow> 'e + 'd option"
  assumes "validateContent (content args) = Some err"
  shows "\<exists>err'. createPost parseNum http args = ([], Inl (ClientError err'))"
  using assms by (cases "validateTitle (title args)") (simp_all add: createPost_def throw_def)

lemma createPost_sent:
  fixes http :: "request \<Rightarrow> 'e + 'd option"
  assumes "fst (createPost parseNum http args) \<noteq> []"
  shows "\<exists>t c b. title args = JStr t \<and> content args = JStr c
           \<and> 2 \<le> length (trim t) \<and> length (trim t) \<le> 26
           \<and> 2 \<le> length (trim c) \<and> length (trim c) \<le> 10000
           \<and> fst (createPost parseNum http args) = [POST_posts b]
           \<and> b_title b = trim t \<and> b_content b = trim c"
proof -
  from assms have vt: "validateTitle (title args) = None"
    by (cases "validateTitle (title args)") (simp_all add: createPost_def throw_def)
  with assms have vc: "validateContent (content args) = None"
    by (cases "validateContent (content args)") (simp_all add: createPost_def throw_def)
  from validateTitle_None [OF vt] obtain t where t: "title args = JStr t"
    "2 \<le> length (trim t)" "length (trim t) \<le> 26" by blast
  from validateContent_None [OF vc] obtain c where c: "content args = JStr c"
    "2 \<le> length (trim c)" "length (trim c) \<le> 10000" by blast
  from assms vt vc obtain ids where ids: "normalizeImageIds parseNum (imageIds args) [] = Inr ids"
    by (cases "normalizeImageIds parseNum (imageIds args) []")
       (simp_all add: createPost_def throw_def)
  show ?thesis
    using t c vt vc ids by (simp add: createPost_def call_def)
qed

lemma updatePost_rejects_title:
  fixes http :: "request \<Rightarrow> 'e + 'd option"
  assumes "up_title args \<noteq> JUndefined" "validateTitle (up_title args) = Some err"
  shows "\<exists>err'. updatePost parseNum http postId args = ([], Inl (ClientError err'))"
  using assms by (simp add: updatePost_def throw_def)

lemma updatePost_rejects_content:
  fixes http :: "request \<Rightarrow> 'e + 'd option"
  assumes "up_content args \<noteq> JUndefined" "validateContent (up_content args) = Some err"
  shows "\<exists>err'. updatePost parseNum http postId args = ([], Inl (ClientError err'))"
  using assms
  by (cases "if up_title args \<noteq> JUndefined then validateTitle (up_title args) else None")
     (simp_all add: updatePost_def throw_def)

lemma updatePost_sent:
  fixes http :: "request \<Rightarrow> 'e + 'd option"
  assumes "fst (updatePost parseNum http postId args) \<noteq> []"
  shows "\<exists>payload. fst (updatePost parseNum http postId args) = [PATCH_post postId payload]
           \<and> u_title payload =
               (if up_title args = JUndefined then None else Some (trim (str_of (up_title args))))
           \<and> u_content payload =
               (if up_content args = JUndefined then None else Some (trim (str_of (up_content args))))
           \<and> (up_title args \<noteq> JUndefined \<longrightarrow> validateTitle (up_title args) = None)
           \<and> (up_content args \<noteq> JUndefined \<longrightarrow> validateContent (up_content args) = None)"
  using assms
  by (auto simp: updatePost_def throw_def call_def Let_def
           split: if_splits option.splits sum.splits)

lemma createPost_sends:
  fixes http :: "request \<Rightarrow> 'e + 'd option"
  assumes "title args = JStr t" "content args = JStr c"
    and "2 \<le> length (trim t)" "length (trim t) \<le> 26"
    and "2 \<le> length (trim c)" "length (trim c) \<le> 10000"
    and "imageIds args \<noteq> IdsNotArray"
  shows "\<exists>b. fst (createPost parseNum http args) = [POST_posts b]
           \<and> b_title b = trim t \<and> b_content b = trim c"
proof -
  have vt: "validateTitle (JStr t) = None" and vc: "validateContent (JStr c) = None"
    using assms by (auto simp: validateTitle_def validateContent_def)
  show ?thesis
    using assms(1,2,7)
    by (cases "imageIds args") (simp_all add: createPost_def vt vc normalizeImageIds_def call_def)
qed

lemma updatePost_sends:
  fixes http :: "request \<Rightarrow> 'e + 'd option"
  assumes "\<not> missing_id postId" "up_title args = JStr t" "up_content args = JStr c"
    and "2 \<le> length (trim t)" "length (trim t) \<le> 26"
    and "2 \<le> length (trim c)" "length (trim c) \<le> 10000"
    and "up_imageIds args \<noteq> IdsNotArray"
  shows "\<exists>payload. fst (updatePost parseNum http postId args) = [PATCH_post postId payload]
           \<and> u_title payload = Some (trim t) \<and> u_content payload = Some (trim c)"
proof -
  have vt: "validateTitle (JStr t) = None" and vc: "validateContent (JStr c) = None"
    using assms by (auto simp: validateTitle_def validateContent_def)
  show ?thesis
    using assms(1,2,3,8)
    by (cases "up_imageIds args")
       (simp_all add: updatePost_def vt vc normalizeImageIds_def call_def Let_def)
qed

lemma trim_space_a_space: "trim (utf16 '' a '') = utf16 ''a''"
  by (simp add: trim_def utf16_def isWhiteSpace_def)

text \<open>
  Claim C3. \<open>createPost\<close>, and \<open>updatePost\<close> for a field that is supplied, throw a
  validation error without any wrapper call whenever the trimmed title has a length
  outside 2..26 or the trimmed content a length outside 2..10000; the title \<open>" a "\<close> has
  trimmed length 1 and is rejected. When the title and the content are strings whose
  trimmed lengths are within the bounds (and the image ids, if given, are an array, and
  \<open>updatePost\<close> has its post id), one request is sent, with the trimmed title and the
  trimmed content. Conversely, whenever a request is sent, it is the one request of the
  call, it carries the trimmed title and the trimmed content, and their lengths are within
  the bounds.
\<close>

theorem C3_title_and_content_validated:
  fixes http :: "request \<Rightarrow> 'e + 'd option"
  shows
    "(title args = JStr t \<and> (length (trim t) < 2 \<or> 26 < length (trim t)) \<longrightarrow>
        (\<exists>err. createPost parseNum http args = ([], Inl (ClientError err)))) \<and>
     (content args = JStr c \<and> (length (trim c) < 2 \<or> 10000 < length (trim c)) \<longrightarrow>
        (\<exists>err. createPost parseNum http args = ([], Inl (ClientError err)))) \<and>
     (up_title uargs = JStr t \<and> (length (trim t) < 2 \<or> 26 < length (trim t)) \<longrightarrow>
        (\<exists>err. updatePost parseNum http postId uargs = ([], Inl (ClientError err)))) \<and>
     (up_content uargs = JStr c \<and> (length (trim c) < 2 \<or> 10000 < length (trim c)) \<longrightarrow>
        (\<exists>err. updatePost parseNum http postId uargs = ([], Inl (ClientError err)))) \<and>
     length (trim (utf16 '' a '')) = 1 \<and>
     createPost parseNum http (args\<lparr>title := JStr (utf16 '' a '')\<rparr>)
       = ([], Inl (ClientError TitleLength)) \<and>
     (title args = JStr t \<and> content args = JStr c
        \<and> 2 \<le> length (trim t) \<and> length (trim t) \<le> 26
        \<and> 2 \<le> length (trim c) \<and> length (trim c) \<le> 10000
        \<and> imageIds args \<noteq> IdsNotArray \<longrightarrow>
        (\<exists>b. fst (createPost parseNum http args) = [POST_posts b]
           \<and> b_title b = trim t \<and> b_content b = trim c)) \<and>
     (\<not> missing_id postId \<and> up_title uargs = JStr t \<and> up_content uargs = JStr c
        \<and> 2 \<le> length (trim t) \<and> length (trim t) \<le> 26
        \<and> 2 \<le> length (trim c) \<and> length (trim c) \<le> 10000
        \<and> up_imageIds uargs \<noteq> IdsNotArray \<longrightarrow>
        (\<exists>payload. fst (updatePost parseNum http postId uargs) = [PATCH_post postId payload]
           \<and> u_title payload = Some (trim t) \<and> u_content payload = Some (trim c))) \<and>
     (fst (createPost parseNum http args) \<noteq> [] \<longrightarrow>
        (\<exists>t' c' b. title args = JStr t' \<and> content args = JStr c'
           \<and> 2 \<le> length (trim t') \<and> length (trim t') \<le> 26
           \<and> 2 \<le> length (trim c') \<and> length (trim c') \<le> 10000
           \<and> fst (createPost parseNum http args) = [POST_posts b]
           \<and> b_title b = trim t' \<and> b_content b = trim c')) \<and>
     (fst (updatePost parseNum http postId uargs) \<noteq> [] \<longrightarrow>
        (\<exists>payload. fst (updatePost parseNum http postId uargs) = [PATCH_post postId payload]
           \<and> (\<forall>t'. up_title uargs = JStr t' \<longrightarrow>
                  u_title payload = Some (trim t')
                  \<and> 2 \<le> length (trim t') \<and> length (trim t') \<le> 26)
           \<and> (\<forall>c'. up_content uargs = JStr c' \<longrightarrow>
                  u_content payload = Some (trim c')
                  \<and> 2 \<le> length (trim c') \<and> length (trim c') \<le> 10000)))"
proof (intro conjI impI)
  assume "title args = JStr t \<and> (length (trim t) < 2 \<or> 26 < length (trim t))"
  then show "\<exists>err. createPost parseNum http args = ([], Inl (ClientError err))"
    using validateTitle_bad [of t] createPost_rejects_title [of args _ parseNum http] by auto
next
  assume "content args = JStr c \<and> (length (trim c) < 2 \<or> 10000 < length (trim c))"
  then show "\<exists>err. createPost parseNum http args = ([], Inl (ClientError err))"
    using validateContent_bad [of c] createPost_rejects_content [of args _ parseNum http] by auto
next
  assume "up_title uargs = JStr t \<and> (length (trim t) < 2 \<or> 26 < length (trim t))"
  then show "\<exists>err. updatePost parseNum http postId uargs = ([], Inl (ClientError err))"
    using validateTitle_bad [of t] updatePost_rejects_title [of uargs _ parseNum http postId]
    by auto
next
  assume "up_content uargs = JStr c \<and> (length (trim c) < 2 \<or> 10000 < length (trim c))"
  then show "\<exists>err. updatePost parseNum http postId uargs = ([], Inl (ClientError err))"
    using validateContent_bad [of c] updatePost_rejects_content [of uargs _ parseNum http postId]
    by auto
next
  show "length (trim (utf16 '' a '')) = 1"
    by (simp add: trim_space_a_space) (simp add: utf16_def)
next
  have "validateTitle (JStr (utf16 '' a '')) = Some TitleLength"
    by (simp add: validateTitle_def trim_space_a_space) (simp add: utf16_def)
  then show "createPost parseNum http (args\<lparr>title := JStr (utf16 '' a '')\<rparr>)
      = ([], Inl (ClientError TitleLength))"
    by (simp add: createPost_rejects_title)
next
  assume "title args = JStr t \<and> content args = JStr c
        \<and> 2 \<le> length (trim t) \<and> length (trim t) \<le> 26
        \<and> 2 \<le> length (trim c) \<and> length (trim c) \<le> 10000
        \<and> imageIds args \<noteq> IdsNotArray"
  then show "\<exists>b. fst (createPost parseNum http args) = [POST_posts b]
           \<and> b_title b = trim t \<and> b_content b = trim c"
    using createPost_sends [of args t c parseNum http] by simp
next
  assume "\<not> missing_id postId \<and> up_title uargs = JStr t \<and> up_content uargs = JStr c
        \<and> 2 \<le> length (trim t) \<and> length (trim t) \<le> 26
        \<and> 2 \<le> length (trim c) \<and> length (trim c) \<le> 10000
        \<and> up_imageIds uargs \<noteq> IdsNotArray"
  then show "\<exists>payload. fst (updatePost parseNum http postId uargs) = [PATCH_post postId payload]
           \<and> u_title payload = Some (trim t) \<and> u_content payload = Some (trim c)"
    using updatePost_sends [of postId uargs t c parseNum http] by simp
next
  assume "fst (createPost parseNum http args) \<noteq> []"
  then show "\<exists>t' c' b. title args = JStr t' \<and> content args = JStr c'
           \<and> 2 \<le> length (trim t') \<and> length (trim t') \<le> 26
           \<and> 2 \<le> length (trim c') \<and> length (trim c') \<le> 10000
           \<and> fst (createPost parseNum http args) = [POST_posts b]
           \<and> b_title b = trim t' \<and> b_content b = trim c'"
    by (rule createPost_sent)
next
  assume sent: "fst (updatePost parseNum http postId uargs) \<noteq> []"
  from updatePost_sent [OF sent] obtain payload where
    p: "fst (updatePost parseNum http postId uargs) = [PATCH_post postId payload]"
      "u_title payload =
         (if up_title uargs = JUndefined then None else Some (trim (str_of (up_title uargs))))"
      "u_content payload =
         (if up_content uargs = JUndefined then None else Some (trim (str_of (up_content uargs))))"
      "up_title uargs \<noteq> JUndefined \<longrightarrow> validateTitle (up_title uargs) = None"
      "up_content uargs \<noteq> JUndefined \<longrightarrow> validateContent (up_content uargs) = None"
    by blast
  have "u_title payload = Some (trim t') \<and> 2 \<le> length (trim t') \<and> length (trim t') \<le> 26"
    if "up_title uargs = JStr t'" for t'
    using that p(2,4) validateTitle_None [of "JStr t'"] by auto
  moreover have
    "u_content payload = Some (trim c') \<and> 2 \<le> length (trim c') \<and> length (trim c') \<le> 10000"
    if "up_content uargs = JStr c'" for c'
    using that p(3,5) validateContent_None [of "JStr c'"] by auto
  ultimately show "\<exists>payload. fst (updatePost parseNum http postId uargs) = [PATCH_post postId payload]
           \<and> (\<forall>t'. up_title uargs = JStr t' \<longrightarrow>
                  u_title payload = Some (trim t')
                  \<and> 2 \<le> length (trim t') \<and> length (trim t') \<le> 26)
           \<and> (\<forall>c'. up_content uargs = JStr c' \<longrightarrow>
                  u_content payload = Some (trim c')
                  \<and> 2 \<le> length (trim c') \<and> length (trim c') \<le> 10000)"
    using p(1) by blast
qed

theorem C3_title_and_content_validated_witness:
  "length (trim (utf16 '' a '')) < 2 \<and> length (trim (utf16 ''x'')) < 2 \<and>
   (\<exists>err. createPost no_number (empty_http :: request \<Rightarrow> nat + unit option)
            \<lparr> title = JStr (utf16 '' a ''), content = JStr (utf16 ''x''),
              imageIds = IdsUndefined, primaryImageId = JUndefined \<rparr>
          = ([], Inl (ClientError err))) \<and>
   (\<exists>err. updatePost no_number (empty_http :: request \<Rightarrow> nat + unit option) (JNum (JFin 7))
            \<lparr> up_title = JStr (utf16 '' a ''), up_content = JStr (utf16 ''x''),
              up_imageIds = IdsUndefined \<rparr>
          = ([], Inl (ClientError err))) \<and>
   2 \<le> length (trim (utf16 '' hi '')) \<and> length (trim (utf16 '' hi '')) \<le> 26 \<and>
   2 \<le> length (trim (utf16 ''hello '')) \<and> length (trim (utf16 ''hello '')) \<le> 10000 \<and>
   (\<exists>b. fst (createPost no_number (empty_http :: request \<Rightarrow> nat + unit option)
               \<lparr> title = JStr (utf16 '' hi ''), content = JStr (utf16 ''hello ''),
                 imageIds = IdsUndefined, primaryImageId = JUndefined \<rparr>) = [POST_posts b]
        \<and> b_title b = utf16 ''hi'' \<and> b_content b = utf16 ''hello'') \<and>
   (\<exists>payload. fst (updatePost no_number (empty_http :: request \<Rightarrow> nat + unit option)
                     (JNum (JFin 7))
                     \<lparr> up_title = JStr (utf16 '' hi ''), up_content = JStr (utf16 ''hello ''),
                       up_imageIds = IdsUndefined \<rparr>) = [PATCH_post (JNum (JFin 7)) payload]
        \<and> u_title payload = Some (utf16 ''hi'') \<and> u_content payload = Some (utf16 ''hello''))"
proof -
  let ?http = "empty_http :: request \<Rightarrow> nat + unit option"
  let ?a = "utf16 '' a ''" and ?x = "utf16 ''x''"
  let ?hi = "utf16 '' hi ''" and ?hello = "utf16 ''hello ''"
  let ?bad = "\<lparr> title = JStr ?a, content = JStr ?x,
                imageIds = IdsUndefined, primaryImageId = JUndefined \<rparr>"
  let ?ubad = "\<lparr> up_title = JStr ?a, up_content = JStr ?x, up_imageIds = IdsUndefined \<rparr>"
  let ?good = "\<lparr> title = JStr ?hi, content = JStr ?hello,
                 imageIds = IdsUndefined, primaryImageId = JUndefined \<rparr>"
  let ?ugood = "\<lparr> up_title = JStr ?hi, up_content = JStr ?hello, up_imageIds = IdsUndefined \<rparr>"
  let ?id = "JNum (JFin 7)"
  have short: "length (trim ?a) < 2" "length (trim ?x) < 2"
    by (simp_all add: trim_def utf16_def isWhiteSpace_def)
  have hi: "trim ?hi = utf16 ''hi''" and hello: "trim ?hello = utf16 ''hello''"
    by (simp_all add: trim_def utf16_def isWhiteSpace_def)
  have lens: "2 \<le> length (trim ?hi)" "length (trim ?hi) \<le> 26"
    "2 \<le> length (trim ?hello)" "length (trim ?hello) \<le> 10000"
    by (simp_all add: hi hello) (simp_all add: utf16_def)
  have present: "\<not> missing_id ?id"
    by (simp add: missing_id_def)
  note bad = C3_title_and_content_validated [where args = ?bad and uargs = ?ubad
      and t = ?a and c = ?x and http = ?http and parseNum = no_number and postId = ?id]
  note good = C3_title_and_content_validated [where args = ?good and uargs = ?ugood
      and t = ?hi and c = ?hello and http = ?http and parseNum = no_number and postId = ?id]
  have h1: "title ?bad = JStr ?a \<and> (length (trim ?a) < 2 \<or> 26 < length (trim ?a))"
    and h2: "content ?bad = JStr ?x \<and> (length (trim ?x) < 2 \<or> 10000 < length (trim ?x))"
    and h3: "up_title ?ubad = JStr ?a \<and> (length (trim ?a) < 2 \<or> 26 < length (trim ?a))"
    and h4: "up_content ?ubad = JStr ?x \<and> (length (trim ?x) < 2 \<or> 10000 < length (trim ?x))"
    using short by simp_all
  have h7: "title ?good = JStr ?hi \<and> content ?good = JStr ?hello
      \<and> 2 \<le> length (trim ?hi) \<and> length (trim ?hi) \<le> 26
      \<and> 2 \<le> length (trim ?hello) \<and> length (trim ?hello) \<le> 10000
      \<and> imageIds ?good \<noteq> IdsNotArray"
    and h8: "\<not> missing_id ?id \<and> up_title ?ugood = JStr ?hi \<and> up_content ?ugood = JStr ?hello
      \<and> 2 \<le> length (trim ?hi) \<and> length (trim ?hi) \<le> 26
      \<and> 2 \<le> length (trim ?hello) \<and> length (trim ?hello) \<le> 10000
      \<and> up_imageIds ?ugood \<noteq> IdsNotArray"
    using lens present by simp_all
  have r1: "\<exists>err. createPost no_number ?http ?bad = ([], Inl (ClientError err))"
    by (rule bad [THEN conjunct1, THEN mp, OF h1])
  have r2: "\<exists>err. createPost no_number ?http ?bad = ([], Inl (ClientError err))"
    by (rule bad [THEN conjunct2, THEN conjunct1, THEN mp, OF h2])
  have r3: "\<exists>err. updatePost no_number ?http ?id ?ubad = ([], Inl (ClientError err))"
    by (rule bad [THEN conjunct2, THEN conjunct2, THEN conjunct1, THEN mp, OF h3])
  have r4: "\<exists>err. updatePost no_number ?http ?id ?ubad = ([], Inl (ClientError err))"
    by (rule bad [THEN conjunct2, THEN conjunct2, THEN conjunct2, THEN conjunct1, THEN mp, OF h4])
  have r7: "\<exists>b. fst (createPost no_number ?http ?good) = [POST_posts b]
      \<and> b_title b = trim ?hi \<and> b_content b = trim ?hello"
    by (rule good [THEN conjunct2, THEN conjunct2, THEN conjunct2, THEN conjunct2,
          THEN conjunct2, THEN conjunct2, THEN conjunct1, THEN mp, OF h7])
  have r8: "\<exists>payload. fst (updatePost no_number ?http ?id ?ugood) = [PATCH_post ?id payload]
      \<and> u_title payload = Some (trim ?hi) \<and> u_content payload = Some (trim ?hello)"
    by (rule good [THEN conjunct2, THEN conjunct2, THEN conjunct2, THEN conjunct2,
          THEN conjunct2, THEN conjunct2, THEN conjunct2, THEN conjunct1, THEN mp, OF h8])
  from r7 have h9: "fst (createPost no_number ?http ?good) \<noteq> []"
    by auto
  from r8 have h10: "fst (updatePost no_number ?http ?id ?ugood) \<noteq> []"
    by auto
  have r9: "\<exists>t' c' b. title ?good = JStr t' \<and> content ?good = JStr c'
           \<and> 2 \<le> length (trim t') \<and> length (trim t') \<le> 26
           \<and> 2 \<le> length (trim c') \<and> length (trim c') \<le> 10000
           \<and> fst (createPost no_number ?http ?good) = [POST_posts b]
           \<and> b_title b = trim t' \<and> b_content b = trim c'"
    by (rule good [THEN conjunct2, THEN conjunct2, THEN conjunct2, THEN conjunct2,
          THEN conjunct2, THEN conjunct2, THEN conjunct2, THEN conjunct2, THEN conjunct1,
          THEN mp, OF h9])
  have r10: "\<exists>payload. fst (updatePost no_number ?http ?id ?ugood) = [PATCH_post ?id payload]
           \<and> (\<forall>t'. up_title ?ugood = JStr t' \<longrightarrow>
                  u_title payload = Some (trim t')
                  \<and> 2 \<le> length (trim t') \<and> length (trim t') \<le> 26)
           \<and> (\<forall>c'. up_content ?ugood = JStr c' \<longrightarrow>
                  u_content payload = Some (trim c')
                  \<and> 2 \<le> length (trim c') \<and> length (trim c') \<le> 10000)"
    by (rule good [THEN conjunct2, THEN conjunct2, THEN conjunct2, THEN conjunct2,
          THEN conjunct2, THEN conjunct2, THEN conjunct2, THEN conjunct2, THEN conjunct2,
          THEN mp, OF h10])
  from r9 have sent: "\<exists>b. fst (createPost no_number ?http ?good) = [POST_posts b]
      \<and> b_title b = utf16 ''hi'' \<and> b_content b = utf16 ''hello''"
    by (auto simp: hi hello)
  from r10 have patched: "\<exists>payload. fst (updatePost no_number ?http ?id ?ugood)
        = [PATCH_post ?id payload]
      \<and> u_title payload = Some (utf16 ''hi'') \<and> u_content payload = Some (utf16 ''hello'')"
    by (auto simp: hi hello)
  from short r1 r3 lens sent patched show ?thesis
    by blast
qed

section \<open>The limit of the list requests\<close>

lemma safeLimit_cases:
  "q_limit (list_query_of parseNum d args) =
     (case ToNumber parseNum (limit args) of
        JNaN \<Rightarrow> Math_min (Math_max (JFin d) (JFin 1)) (JFin 50)
      | JFin r \<Rightarrow>
          if r = 0 then Math_min (Math_max (JFin d) (JFin 1)) (JFin 50)
          else JFin (min (max r 1) 50)
      | JPosInf \<Rightarrow> JFin 50
      | JNegInf \<Rightarrow> JFin 1)"
  by (cases "limit args"; cases "ToNumber parseNum (limit args)")
     (auto simp: list_query_of_def Let_def Math_max_def Math_min_def)

text \<open>
  Claim C4. \<open>getPosts\<close> and \<open>getMyPosts\<close> make one wrapper call, whose query carries as
  limit the requested limit, converted to a number, clamped into 1..50; a limit that
  converts to 0 or to no number is replaced by the default (10 and 20) instead. So 999 is
  sent as 50 and 0 as the default, and what is sent always lies in 1..50.
\<close>

theorem C4_limit_clamped:
  fixes http :: "request \<Rightarrow> 'e + 'd option" and http' :: "request \<Rightarrow> 'e + 'p page option"
  shows
    "(\<exists>q. fst (getPosts parseNum http args) = [GET_posts q] \<and>
          q_limit q =
            (case ToNumber parseNum (limit args) of
               JNaN \<Rightarrow> JFin 10
             | JFin r \<Rightarrow> if r = 0 then JFin 10 else JFin (min (max r 1) 50)
             | JPosInf \<Rightarrow> JFin 50
             | JNegInf \<Rightarrow> JFin 1) \<and>
          num_le (JFin 1) (q_limit q) \<and> num_le (q_limit q) (JFin 50)) \<and>
     (\<exists>q. fst (getMyPosts parseNum http' args) = [GET_posts_me q] \<and>
          q_limit q =
            (case ToNumber parseNum (limit args) of
               JNaN \<Rightarrow> JFin 20
             | JFin r \<Rightarrow> if r = 0 then JFin 20 else JFin (min (max r 1) 50)
             | JPosInf \<Rightarrow> JFin 50
             | JNegInf \<Rightarrow> JFin 1) \<and>
          num_le (JFin 1) (q_limit q) \<and> num_le (q_limit q) (JFin 50)) \<and>
     fst (getPosts parseNum http (args\<lparr>limit := JNum (JFin 999)\<rparr>))
       = [GET_posts (list_query_of parseNum 10 (args\<lparr>limit := JNum (JFin 999)\<rparr>))] \<and>
     q_limit (list_query_of parseNum 10 (args\<lparr>limit := JNum (JFin 999)\<rparr>)) = JFin 50 \<and>
     q_limit (list_query_of parseNum 10 (args\<lparr>limit := JNum (JFin 0)\<rparr>)) = JFin 10 \<and>
     fst (getMyPosts parseNum http' (args\<lparr>limit := JNum (JFin 999)\<rparr>))
       = [GET_posts_me (list_query_of parseNum 20 (args\<lparr>limit := JNum (JFin 999)\<rparr>))] \<and>
     q_limit (list_query_of parseNum 20 (args\<lparr>limit := JNum (JFin 999)\<rparr>)) = JFin 50 \<and>
     q_limit (list_query_of parseNum 20 (args\<lparr>limit := JNum (JFin 0)\<rparr>)) = JFin 20"
proof -
  have ten: "Math_min (Math_max (JFin 10) (JFin 1)) (JFin 50) = JFin 10"
    and twenty: "Math_min (Math_max (JFin 20) (JFin 1)) (JFin 50) = JFin 20"
    by (simp_all add: Math_max_def Math_min_def)
  have posts: "fst (getPosts parseNum http a) = [GET_posts (list_query_of parseNum 10 a)]" for a
    by (simp add: getPosts_def call_def)
  have mine: "fst (getMyPosts parseNum http' a) = [GET_posts_me (list_query_of parseNum 20 a)]"
    for a
    by (simp add: getMyPosts_def call_def split: sum.splits option.splits)
  have range: "num_le (JFin 1) (q_limit (list_query_of parseNum d args)) \<and>
      num_le (q_limit (list_query_of parseNum d args)) (JFin 50)" for d
    by (cases "ToNumber parseNum (limit args)")
       (auto simp: safeLimit_cases Math_max_def Math_min_def)
  show ?thesis
    using range [of 10] range [of 20]
    by (simp add: posts mine safeLimit_cases ten twenty split: jsnum.splits)
qed

section \<open>The image API client and the propagation of wrapper errors\<close>

text \<open>
  Claim C10. When the call \<open>get('/ai-generations/remaining')\<close> fails, whatever the
  error, \<open>getAiGenerationRemaining\<close> returns \<open>{ remaining: 5, limit: 5, used: 0 }\<close> after
  that one call, and \<open>checkAiGenerationLimit\<close> reports \<open>canGenerate: true\<close> with 5
  remaining: the client-side check of the daily limit fails open.
\<close>

theorem C10_quota_check_fails_open:
  fixes http :: "request \<Rightarrow> 'e + quota option"
  assumes "http GET_ai_generations_remaining = Inl e"
  shows "getAiGenerationRemaining http
           = ([GET_ai_generations_remaining], \<lparr> remaining = 5, limit_of = 5, used = 0 \<rparr>) \<and>
         checkAiGenerationLimit http
           = ([GET_ai_generations_remaining],
              \<lparr> canGenerate = True, lc_remaining = 5, lc_limit = Some 5, lc_message = False \<rparr>)"
  using assms
  by (simp add: getAiGenerationRemaining_def checkAiGenerationLimit_def quota_fallback_def
        AI_DAILY_LIMIT_def)

theorem C10_quota_check_fails_open_witness:
  "(failing_http :: request \<Rightarrow> nat + quota option) GET_ai_generations_remaining = Inl 500 \<and>
   getAiGenerationRemaining (failing_http :: request \<Rightarrow> nat + quota option)
     = ([GET_ai_generations_remaining], \<lparr> remaining = 5, limit_of = 5, used = 0 \<rparr>) \<and>
   canGenerate (snd (checkAiGenerationLimit (failing_http :: request \<Rightarrow> nat + quota option)))"
proof -
  have fails: "(failing_http :: request \<Rightarrow> nat + quota option) GET_ai_generations_remaining
      = Inl 500"
    by (simp add: failing_http_def)
  from C10_quota_check_fails_open [where http = "failing_http :: request \<Rightarrow> nat + quota option"
      and e = 500] fails
  show ?thesis by simp
qed

lemma call_propagates: "error_propagates http (call http r)"
  by (simp add: error_propagates_def call_def split: sum.splits)

lemma throw_propagates: "error_propagates http (throw err)"
  by (simp add: error_propagates_def throw_def)

lemma createPost_propagates: "error_propagates http (createPost parseNum http args)"
  by (simp add: createPost_def call_propagates throw_propagates split: option.splits sum.splits)

lemma updatePost_propagates: "error_propagates http (updatePost parseNum http postId args)"
  unfolding updatePost_def Let_def
  by (simp add: call_propagates throw_propagates split: option.splits sum.splits)

lemma getMyPosts_propagates: "error_propagates http (getMyPosts parseNum http args)"
  by (cases "http (GET_posts_me (list_query_of parseNum 20 args))")
     (auto simp: getMyPosts_def call_def error_propagates_def split: option.splits)

text \<open>
  Claim C5, amended. The wrapper-based client functions of the post, image and feedback
  modules, \<open>createPost\<close>, \<open>getPosts\<close>, \<open>getPost\<close>, \<open>updatePost\<close>, \<open>deletePost\<close>,
  \<open>getMyPosts\<close>, \<open>saveImageMetadata\<close>, \<open>getImage\<close>, \<open>deleteImage\<close> and
  \<open>submitFeedback\<close>, let a failure of the wrapper through: the error thrown by the wrapper
  is the error of the function, after that single call, with no retry and no value in its
  place. \<open>getAiGenerationRemaining\<close> is the exception: it catches the error and returns
  its fallback quota.
\<close>

theorem C5_wrapper_errors_propagate:
  fixes http :: "request \<Rightarrow> 'e + 'd option"
    and http_pages :: "request \<Rightarrow> 'e + 'p page option"
    and http_quota :: "request \<Rightarrow> 'e + quota option"
  shows
    "error_propagates http (createPost parseNum http args) \<and>
     error_propagates http (getPosts parseNum http largs) \<and>
     error_propagates http (getPost http postId) \<and>
     error_propagates http (updatePost parseNum http postId uargs) \<and>
     error_propagates http (deletePost http postId) \<and>
     error_propagates http_pages (getMyPosts parseNum http_pages largs) \<and>
     error_propagates http (saveImageMetadata http md aiGenerated) \<and>
     error_propagates http (getImage http imageId) \<and>
     error_propagates http (deleteImage http imageId) \<and>
     error_propagates http (submitFeedback http feedbackData) \<and>
     (http_quota GET_ai_generations_remaining = Inl e \<longrightarrow>
        getAiGenerationRemaining http_quota = ([GET_ai_generations_remaining], quota_fallback))"
  by (simp add: createPost_propagates updatePost_propagates getMyPosts_propagates
        getPosts_def getPost_def deletePost_def saveImageMetadata_def getImage_def
        deleteImage_def submitFeedback_def call_propagates throw_propagates
        getAiGenerationRemaining_def
      split: option.splits)

theorem C5_wrapper_errors_propagate_witness:
  "createPost no_number (failing_http :: request \<Rightarrow> nat + unit option)
      \<lparr> title = JStr (utf16 ''hi''), content = JStr (utf16 ''hello''),
        imageIds = IdsUndefined, primaryImageId = JUndefined \<rparr>
     = ([POST_posts \<lparr> b_title = utf16 ''hi'', b_content = utf16 ''hello'', b_imageIds = [],
                      b_primaryImageId = None \<rparr>],
        Inl (HttpError 500)) \<and>
   getImage (failing_http :: request \<Rightarrow> nat + unit option) (JNum (JFin 7))
     = ([GET_image (JNum (JFin 7))], Inl (HttpError 500)) \<and>
   getAiGenerationRemaining (failing_http :: request \<Rightarrow> nat + quota option)
     = ([GET_ai_generations_remaining], quota_fallback)"
proof -
  let ?http = "failing_http :: request \<Rightarrow> nat + unit option"
  let ?args = "\<lparr> title = JStr (utf16 ''hi''), content = JStr (utf16 ''hello''),
                 imageIds = IdsUndefined, primaryImageId = JUndefined \<rparr>"
  let ?body = "\<lparr> b_title = utf16 ''hi'', b_content = utf16 ''hello'', b_imageIds = [],
                 b_primaryImageId = None \<rparr>"
  have hi: "trim (utf16 ''hi'') = utf16 ''hi''" and hello: "trim (utf16 ''hello'') = utf16 ''hello''"
    by (simp_all add: trim_def utf16_def isWhiteSpace_def)
  have sent: "fst (createPost no_number ?http ?args) = [POST_posts ?body]"
    by (simp add: createPost_def validateTitle_def validateContent_def normalizeImageIds_def
          call_def hi hello) (simp add: utf16_def)
  have got: "fst (getImage ?http (JNum (JFin 7))) = [GET_image (JNum (JFin 7))]"
    by (simp add: getImage_def missing_id_def call_def)
  note c5 = C5_wrapper_errors_propagate [where http = ?http and parseNum = no_number
      and args = ?args and imageId = "JNum (JFin 7)"
      and http_quota = "failing_http :: request \<Rightarrow> nat + quota option" and e = 500]
  have "error_propagates ?http (createPost no_number ?http ?args)"
    using c5 by blast
  with sent have "createPost no_number ?http ?args = ([POST_posts ?body], Inl (HttpError 500))"
    by (simp add: error_propagates_def failing_http_def)
  moreover have "error_propagates ?http (getImage ?http (JNum (JFin 7)))"
    using c5 by blast
  with got have
    "getImage ?http (JNum (JFin 7)) = ([GET_image (JNum (JFin 7))], Inl (HttpError 500))"
    by (simp add: error_propagates_def failing_http_def)
  moreover have "(failing_http :: request \<Rightarrow> nat + quota option) GET_ai_generations_remaining
      = Inl 500"
    by (simp add: failing_http_def)
  with c5 have "getAiGenerationRemaining (failing_http :: request \<Rightarrow> nat + quota option)
      = ([GET_ai_generations_remaining], quota_fallback)"
    by blast
  ultimately show ?thesis by simp
qed

text \<open>
  Claim C5 as stated fails at \<open>getAiGenerationRemaining\<close>: with a wrapper whose call
  fails with status 500 the function does not throw; it returns the fallback quota.
\<close>

theorem C5_counterexample:
  "(failing_http :: request \<Rightarrow> nat + quota option) GET_ai_generations_remaining = Inl 500 \<and>
   getAiGenerationRemaining (failing_http :: request \<Rightarrow> nat + quota option)
     = ([GET_ai_generations_remaining], \<lparr> remaining = 5, limit_of = 5, used = 0 \<rparr>)"
  by (simp add: getAiGenerationRemaining_def failing_http_def quota_fallback_def AI_DAILY_LIMIT_def)

section \<open>The server routes\<close>

text \<open>
  Claim C9, amended. For every \<open>POST /api/ai/generate-image\<close> whose parsed body has no
  \<open>profileImageBase64\<close> (or a falsy one), the server does not call the Gemini API. It
  answers 500 with code \<open>API_KEY_NOT_CONFIGURED\<close> when the API key is not set, otherwise
  400 with code \<open>PROMPT_REQUIRED\<close> when the body has no \<open>prompt\<close> either, and otherwise
  400 with code \<open>PROFILE_IMAGE_REQUIRED\<close>.
\<close>

theorem C9_missing_profile_image:
  assumes "\<not> truthy (profileImageBase64 b)"
  shows "generate_image gemini env_key (Some b) =
           ([], if env_key = None \<or> env_key = Some [] then Error_json 500 API_KEY_NOT_CONFIGURED
                else if \<not> truthy (prompt b) then Error_json 400 PROMPT_REQUIRED
                else Error_json 400 PROFILE_IMAGE_REQUIRED)"
  using assms by (simp add: generate_image_def split: option.splits)

theorem C9_missing_profile_image_witness:
  "\<not> truthy (profileImageBase64 (empty_body\<lparr> prompt := JStr (utf16 ''a cat'') \<rparr>)) \<and>
   generate_image gemini_one_image (Some (utf16 ''key''))
       (Some (empty_body\<lparr> prompt := JStr (utf16 ''a cat'') \<rparr>))
     = ([], Error_json 400 PROFILE_IMAGE_REQUIRED)"
proof -
  have lacks: "\<not> truthy (profileImageBase64 (empty_body\<lparr> prompt := JStr (utf16 ''a cat'') \<rparr>))"
    by (simp add: empty_body_def)
  from C9_missing_profile_image [OF lacks, of gemini_one_image "Some (utf16 ''key'')"] lacks
  show ?thesis by (simp add: utf16_def)
qed

text \<open>
  Claim C9 as stated fails for the body \<open>{}\<close>: it has no \<open>profileImageBase64\<close>, and with
  the API key set the answer is 400 with code \<open>PROMPT_REQUIRED\<close>.
\<close>

theorem C9_counterexample:
  "profileImageBase64 empty_body = JUndefined \<and>
   generate_image gemini_one_image (Some (utf16 ''key'')) (Some empty_body)
     = ([], Error_json 400 PROMPT_REQUIRED) \<and>
   generate_image gemini_one_image (Some (utf16 ''key'')) (Some empty_body)
     \<noteq> ([], Error_json 400 PROFILE_IMAGE_REQUIRED)"
  by (simp add: generate_image_def empty_body_def utf16_def)

text \<open>
  Claim C2 at the URL \<open>http://s3.ap-northeast-2.amazonaws.com.evil.example/x.png\<close>. Its
  host name is none of the two allowed domains, yet it contains one of them, so the
  handler does not answer 403: it fetches the URL and sends the bytes on.
\<close>

theorem C2_lookalike_host_is_proxied:
  "lookalike_hostname lookalike_url = Some lookalike_host \<and>
   lookalike_host \<notin> set allowedDomains \<and>
   image_proxy lookalike_hostname fetch_two_bytes (Some lookalike_url)
     = ([lookalike_url], Proxy_image (utf16 ''image/jpeg'') [0xFF, 0xD8])"
proof -
  have notin: "lookalike_host \<notin> set allowedDomains"
    by (simp add: lookalike_host_def allowedDomains_def utf16_def)
  have inc: "js_includes lookalike_host (utf16 ''s3.ap-northeast-2.amazonaws.com'')"
    by (simp add: lookalike_host_def utf16_def)
  have nonempty: "lookalike_url \<noteq> []"
    by (simp add: lookalike_url_def utf16_def)
  show ?thesis
    using notin inc nonempty
    by (simp add: image_proxy_def lookalike_hostname_def fetch_two_bytes_def allowedDomains_def)
qed

section \<open>Reordering and removing uploaded images\<close>

lemma length_splice_delete:
  "length (splice_delete i xs) = (if i < length xs then length xs - 1 else length xs)"
  by (auto simp: splice_delete_def)

lemma length_splice_insert: "length (splice_insert i x xs) = Suc (length xs)"
  by (simp add: splice_insert_def)

lemma mset_splice_insert: "mset (splice_insert i x xs) = add_mset x (mset xs)"
proof -
  have "mset (take i xs) + mset (drop i xs) = mset xs"
    by (metis append_take_drop_id mset_append)
  then show ?thesis
    by (simp add: splice_insert_def)
qed

lemma mset_splice_delete:
  assumes "i < length xs"
  shows "add_mset (xs ! i) (mset (splice_delete i xs)) = mset xs"
proof -
  have "xs = take i xs @ xs ! i # drop (Suc i) xs"
    using assms by (rule id_take_nth_drop)
  then have "mset xs = mset (take i xs @ xs ! i # drop (Suc i) xs)"
    by simp
  then show ?thesis
    by (simp add: splice_delete_def)
qed

lemma nth_splice_delete:
  assumes "Suc i < length xs"
  shows "splice_delete d xs ! i = (if i < d then xs ! i else xs ! Suc i)"
  using assms by (auto simp: splice_delete_def nth_append min_def)

lemma nth_splice_insert_after:
  assumes "t \<le> length ys"
  shows "splice_insert t x ys ! Suc (t + k) = ys ! (t + k)"
proof -
  have "splice_insert t x ys ! Suc (t + k) = (take t ys @ x # drop t ys) ! (length (take t ys) + Suc k)"
    using assms by (simp add: splice_insert_def min_def)
  also have "\<dots> = (x # drop t ys) ! Suc k"
    by (rule nth_append_length_plus)
  also have "\<dots> = ys ! (t + k)"
    using assms by simp
  finally show ?thesis .
qed

lemma nth_splice_insert:
  assumes "t \<le> length ys"
  shows "splice_insert t x ys ! i = (if i < t then ys ! i else if i = t then x else ys ! (i - 1))"
proof -
  consider (before) "i < t" | (at) "i = t" | (after) "t < i"
    by linarith
  then show ?thesis
  proof cases
    case before
    then show ?thesis
      using assms by (simp add: splice_insert_def nth_append)
  next
    case at
    then show ?thesis
      using assms by (simp add: splice_insert_def nth_append)
  next
    case after
    then obtain k where k: "i = Suc (t + k)"
      by (metis add_Suc_right less_imp_Suc_add)
    have "splice_insert t x ys ! Suc (t + k) = ys ! (t + k)"
      using assms by (rule nth_splice_insert_after)
    then show ?thesis
      unfolding k by simp
  qed
qed

lemma nth_splice_delete_low:
  assumes "i < d" "i < length xs"
  shows "splice_delete d xs ! i = xs ! i"
  using assms by (simp add: splice_delete_def nth_append)

lemma reorder_keeps_primary:
  fixes xs :: "'a list"
  assumes d: "d < length xs" and t: "t < length xs" and p: "p < length xs" and dt: "d \<noteq> t"
  defines "p' \<equiv> (if p = d then t
                   else if d < p \<and> t \<ge> p then p - 1
                   else if d > p \<and> t \<le> p then p + 1
                   else p)"
  shows "splice_insert t (xs ! d) (splice_delete d xs) ! p' = xs ! p \<and> p' < length xs"
proof -
  let ?ys = "splice_delete d xs"
  have len: "length ?ys = length xs - 1"
    using d by (simp add: length_splice_delete)
  have tl: "t \<le> length ?ys"
    using t len by simp
  have low: "?ys ! i = xs ! i" if "i < d" for i
    using that d by (simp add: nth_splice_delete_low)
  have high: "?ys ! i = xs ! Suc i" if "d \<le> i" "Suc i < length xs" for i
    using that by (simp add: nth_splice_delete)
  consider (dragged) "p = d" | (passed_back) "p \<noteq> d" "d < p" "t \<ge> p"
    | (passed_front) "p \<noteq> d" "d > p" "t \<le> p"
    | (both_below) "d < p" "t < p" | (both_above) "d > p" "t > p"
    by linarith
  then show ?thesis
  proof cases
    case dragged
    then have "p' = t" by (simp add: p'_def)
    then show ?thesis
      using t dragged by (simp add: nth_splice_insert [OF tl])
  next
    case passed_back
    then have p': "p' = p - 1" by (simp add: p'_def)
    have "p - 1 < t" "d \<le> p - 1" "Suc (p - 1) = p"
      using passed_back by linarith+
    then have "splice_insert t (xs ! d) ?ys ! (p - 1) = xs ! p"
      using p high [of "p - 1"] by (simp add: nth_splice_insert [OF tl])
    then show ?thesis
      using p p' by simp
  next
    case passed_front
    then have p': "p' = Suc p" by (simp add: p'_def)
    have "\<not> Suc p < t" "Suc p \<noteq> t" "p < d"
      using passed_front by linarith+
    then have "splice_insert t (xs ! d) ?ys ! Suc p = xs ! p"
      using low [of p] by (simp add: nth_splice_insert [OF tl])
    moreover have "Suc p < length xs"
      using passed_front d by linarith
    ultimately show ?thesis
      using p' by simp
  next
    case both_below
    then have p': "p' = p" by (simp add: p'_def)
    have "\<not> p < t" "p \<noteq> t" "d \<le> p - 1" "Suc (p - 1) = p"
      using both_below by linarith+
    then have "splice_insert t (xs ! d) ?ys ! p = xs ! p"
      using p high [of "p - 1"] by (simp add: nth_splice_insert [OF tl])
    then show ?thesis
      using p p' by simp
  next
    case both_above
    then have p': "p' = p" by (simp add: p'_def)
    have "p < t" "p < d"
      using both_above by linarith+
    then have "splice_insert t (xs ! d) ?ys ! p = xs ! p"
      using low [of p] by (simp add: nth_splice_insert [OF tl])
    then show ?thesis
      using p p' by simp
  qed
qed

lemma on_drop_unchanged:
  assumes "target = No_item \<or> target = Item_NaN \<or> draggedIndex st = None
             \<or> (\<exists>i. target = Item_index i \<and> draggedIndex st = Some i)"
  shows "uploadedImages (on_drop target st) = uploadedImages st \<and>
         primaryImageIndex (on_drop target st) = primaryImageIndex st"
  using assms
  by (auto simp: on_drop_def end_drag_def split: drop_target.splits option.splits)

lemma on_drop_reorders:
  assumes "draggedIndex st = Some d" "d \<noteq> t"
  shows "uploadedImages (on_drop (Item_index t) st)
           = splice_insert t (at_index (uploadedImages st) d) (splice_delete d (uploadedImages st)) \<and>
         primaryImageIndex (on_drop (Item_index t) st)
           = (if primaryImageIndex st = d then t
              else if d < primaryImageIndex st \<and> t \<ge> primaryImageIndex st
                   then primaryImageIndex st - 1
              else if d > primaryImageIndex st \<and> t \<le> primaryImageIndex st
                   then primaryImageIndex st + 1
              else primaryImageIndex st)"
  using assms by (simp add: on_drop_def end_drag_def Let_def)

lemma removeImage_in_bounds:
  assumes "primary_in_bounds st"
  shows "primary_in_bounds (removeImage index st)"
proof -
  let ?xs = "uploadedImages st"
  let ?ys = "splice_delete index ?xs"
  have len: "length ?ys = (if index < length ?xs then length ?xs - 1 else length ?xs)"
    by (rule length_splice_delete)
  have empty: "?ys = [] \<longleftrightarrow> length ?ys = 0"
    by simp
  show ?thesis
    using assms len
    unfolding primary_in_bounds_def removeImage_def Let_def
    by (cases "?xs = []") (auto simp: empty simp del: length_0_conv split: if_splits)
qed

lemma effective_in_bounds:
  assumes "primary_in_bounds st"
  shows "effectivePrimaryIndex st = primaryImageIndex st"
  using assms by (auto simp: primary_in_bounds_def effectivePrimaryIndex_def split: if_splits)

lemma effective_shown:
  assumes "uploadedImages st \<noteq> []"
  shows "effectivePrimaryIndex st < length (uploadedImages st)"
  using assms by (simp add: effectivePrimaryIndex_def)

lemma upload_failed_index: "primaryImageIndex (upload_failed tempImage st) = primaryImageIndex st"
  by (simp add: upload_failed_def split: option.splits)

lemma on_drop_permutation:
  assumes "\<forall>d. draggedIndex st = Some d \<longrightarrow> d < length (uploadedImages st)"
  shows "mset (uploadedImages (on_drop target st)) = mset (uploadedImages st)"
proof (cases "\<exists>d t. draggedIndex st = Some d \<and> target = Item_index t \<and> d \<noteq> t")
  case False
  then have "target = No_item \<or> target = Item_NaN \<or> draggedIndex st = None
           \<or> (\<exists>i. target = Item_index i \<and> draggedIndex st = Some i)"
    by (cases target; cases "draggedIndex st") auto
  from on_drop_unchanged [OF this] show ?thesis
    by simp
next
  case True
  then obtain d t where dt: "draggedIndex st = Some d" "target = Item_index t" "d \<noteq> t"
    by blast
  with assms have d: "d < length (uploadedImages st)"
    by simp
  then have item: "at_index (uploadedImages st) d = uploadedImages st ! d"
    by (simp add: at_index_def)
  from on_drop_reorders [OF dt(1) dt(3)] d show ?thesis
    by (simp add: dt(2) item mset_splice_insert mset_splice_delete)
qed

text \<open>
  What the \<open>drop\<close> listener keeps when its two indices are indices of the array and the
  primary index is within the bounds: the array is permuted, and the primary index is
  moved along with its image, which is also the image shown as primary.
\<close>

lemma on_drop_keeps_primary:
  fixes st :: "'a images_state"
  assumes "primary_in_bounds st"
    and "\<forall>d. draggedIndex st = Some d \<longrightarrow> d < length (uploadedImages st)"
    and "\<forall>t. target = Item_index t \<longrightarrow> t < length (uploadedImages st)"
  shows "uploadedImages (on_drop target st) ! primaryImageIndex (on_drop target st)
           = uploadedImages st ! primaryImageIndex st"
    and "uploadedImages (on_drop target st) ! effectivePrimaryIndex (on_drop target st)
           = uploadedImages st ! effectivePrimaryIndex st"
    and "primary_in_bounds (on_drop target st)"
proof -
  let ?xs = "uploadedImages st" and ?p = "primaryImageIndex st"
  let ?st' = "on_drop target st"
  have goal: "uploadedImages ?st' ! primaryImageIndex ?st' = ?xs ! ?p \<and> primary_in_bounds ?st'"
  proof (cases "\<exists>d t. draggedIndex st = Some d \<and> target = Item_index t \<and> d \<noteq> t")
    case False
    then have "target = No_item \<or> target = Item_NaN \<or> draggedIndex st = None
             \<or> (\<exists>i. target = Item_index i \<and> draggedIndex st = Some i)"
      by (cases target; cases "draggedIndex st") auto
    from on_drop_unchanged [OF this] assms(1) show ?thesis
      by (simp add: primary_in_bounds_def)
  next
    case True
    then obtain d t where dt: "draggedIndex st = Some d" "target = Item_index t" "d \<noteq> t"
      by blast
    with assms have d: "d < length ?xs" and t: "t < length ?xs"
      by auto
    then have "?xs \<noteq> []" by auto
    with assms(1) have p: "?p < length ?xs"
      by (simp add: primary_in_bounds_def)
    have item: "at_index ?xs d = ?xs ! d"
      using d by (simp add: at_index_def)
    note after = on_drop_reorders [OF dt(1) dt(3)]
    have "mset (uploadedImages ?st') = mset ?xs"
      using assms(2) by (simp add: on_drop_permutation)
    then have len: "length (uploadedImages ?st') = length ?xs"
      by (metis size_mset)
    from reorder_keeps_primary [OF d t p dt(3)] after
    have kept: "uploadedImages ?st' ! primaryImageIndex ?st' = ?xs ! ?p"
      and bound: "primaryImageIndex ?st' < length ?xs"
      by (simp_all add: dt(2) item)
    from bound len have "primary_in_bounds ?st'"
      by (auto simp: primary_in_bounds_def)
    with kept show ?thesis by simp
  qed
  from goal show "uploadedImages ?st' ! primaryImageIndex ?st' = ?xs ! ?p" by simp
  from goal assms(1) show "uploadedImages ?st' ! effectivePrimaryIndex ?st'
      = ?xs ! effectivePrimaryIndex st"
    by (simp add: effective_in_bounds)
  from goal show "primary_in_bounds ?st'" by simp
qed

text \<open>
  Claim C6 fails where an upload fails. The \<open>catch\<close> block of the upload takes the image
  out of \<open>uploadedImages\<close> and leaves \<open>primaryImageIndex\<close> as it is, where \<open>removeImage\<close>
  moves the index along with the same removal. Take the images 10, 20 and 30.

  \<^item> With 20 primary, the failure of the upload of 10 leaves the index 1, which now is the
    place of 30: the primary image has changed without anyone choosing it. \<open>removeImage\<close>
    of the same image sets the index to 0, and 20 stays primary.

  \<^item> With 30 primary, the failure of the upload of 30 leaves the index 2 on an array of
    two images, outside the bounds.

  \<^item> The previews are not drawn again while an image is dragged, so the items keep the
    indices of the longer array. With 10 primary and 30 being dragged when its upload
    fails, the drop on the first item does not find the dragged image and puts
    \<open>undefined\<close> in front of the array, which is no permutation of the array before the
    drop. With 10 being dragged when the upload of 30 fails, the drop on the third item
    sets the primary index to 2 on an array of two images.
\<close>

theorem C6_failed_upload_loses_primary:
  "primary_in_bounds second_primary \<and>
   uploadedImages second_primary ! primaryImageIndex second_primary = Some 20 \<and>
   uploadedImages (upload_failed 10 second_primary) = [Some 20, Some 30] \<and>
   primaryImageIndex (upload_failed 10 second_primary) = 1 \<and>
   uploadedImages (upload_failed 10 second_primary)
     ! effectivePrimaryIndex (upload_failed 10 second_primary) = Some 30 \<and>
   uploadedImages (removeImage 0 second_primary) = [Some 20, Some 30] \<and>
   primaryImageIndex (removeImage 0 second_primary) = 0 \<and>
   uploadedImages (removeImage 0 second_primary)
     ! effectivePrimaryIndex (removeImage 0 second_primary) = Some 20 \<and>
   primary_in_bounds third_primary \<and>
   uploadedImages (upload_failed 30 third_primary) = [Some 10, Some 20] \<and>
   primaryImageIndex (upload_failed 30 third_primary) = 2 \<and>
   \<not> primary_in_bounds (upload_failed 30 third_primary) \<and>
   primary_in_bounds (removeImage 2 third_primary) \<and>
   uploadedImages (upload_failed 30 (on_dragstart 2 first_primary)) = [Some 10, Some 20] \<and>
   uploadedImages (on_drop (Item_index 0) (upload_failed 30 (on_dragstart 2 first_primary)))
     = [None, Some 10, Some 20] \<and>
   mset (uploadedImages (on_drop (Item_index 0) (upload_failed 30 (on_dragstart 2 first_primary))))
     \<noteq> mset (uploadedImages (upload_failed 30 (on_dragstart 2 first_primary))) \<and>
   uploadedImages (on_drop (Item_index 2) (upload_failed 30 (on_dragstart 0 first_primary)))
     = [Some 20, Some 10] \<and>
   primaryImageIndex (on_drop (Item_index 2) (upload_failed 30 (on_dragstart 0 first_primary)))
     = 2 \<and>
   \<not> primary_in_bounds (on_drop (Item_index 2) (upload_failed 30 (on_dragstart 0 first_primary)))"
proof -
  have second: "upload_failed 10 second_primary
      = \<lparr> uploadedImages = [Some 20, Some 30], primaryImageIndex = 1,
          draggedIndex = None, isDragging = False \<rparr>"
    by (simp add: upload_failed_def second_primary_def splice_delete_def)
  have removed: "removeImage 0 second_primary
      = \<lparr> uploadedImages = [Some 20, Some 30], primaryImageIndex = 0,
          draggedIndex = None, isDragging = False \<rparr>"
    by (simp add: removeImage_def second_primary_def splice_delete_def Let_def)
  have third: "upload_failed 30 third_primary
      = \<lparr> uploadedImages = [Some 10, Some 20], primaryImageIndex = 2,
          draggedIndex = None, isDragging = False \<rparr>"
    by (simp add: upload_failed_def third_primary_def splice_delete_def)
  have removed_third: "removeImage 2 third_primary
      = \<lparr> uploadedImages = [Some 10, Some 20], primaryImageIndex = 0,
          draggedIndex = None, isDragging = False \<rparr>"
    by (simp add: removeImage_def third_primary_def splice_delete_def Let_def)
  have dragged_gone: "upload_failed 30 (on_dragstart 2 first_primary)
      = \<lparr> uploadedImages = [Some 10, Some 20], primaryImageIndex = 0,
          draggedIndex = Some 2, isDragging = True \<rparr>"
    by (simp add: upload_failed_def on_dragstart_def first_primary_def splice_delete_def)
  have stale_drag: "on_drop (Item_index 0) (upload_failed 30 (on_dragstart 2 first_primary))
      = \<lparr> uploadedImages = [None, Some 10, Some 20], primaryImageIndex = 1,
          draggedIndex = None, isDragging = False \<rparr>"
    by (simp add: dragged_gone on_drop_def end_drag_def Let_def at_index_def
          splice_delete_def splice_insert_def)
  have target_gone: "upload_failed 30 (on_dragstart 0 first_primary)
      = \<lparr> uploadedImages = [Some 10, Some 20], primaryImageIndex = 0,
          draggedIndex = Some 0, isDragging = True \<rparr>"
    by (simp add: upload_failed_def on_dragstart_def first_primary_def splice_delete_def)
  have stale_target: "on_drop (Item_index 2) (upload_failed 30 (on_dragstart 0 first_primary))
      = \<lparr> uploadedImages = [Some 20, Some 10], primaryImageIndex = 2,
          draggedIndex = None, isDragging = False \<rparr>"
    by (simp add: target_gone on_drop_def end_drag_def Let_def at_index_def
          splice_delete_def splice_insert_def)
  have start: "primary_in_bounds second_primary"
    "uploadedImages second_primary ! primaryImageIndex second_primary = Some 20"
    "primary_in_bounds third_primary"
    by (simp_all add: primary_in_bounds_def second_primary_def third_primary_def)
  show ?thesis
    by (simp only: stale_drag stale_target, simp only: dragged_gone,
        simp only: second removed third removed_third start,
        simp add: primary_in_bounds_def effectivePrimaryIndex_def)
qed

section \<open>The listeners of the modal\<close>

lemma modal_inv_loaded: "modal_inv modal_loaded"
  by (simp add: modal_inv_def Let_def modal_loaded_def)

lemma cleanup_inv:
  assumes "modal_inv st"
  shows "modal_inv (cleanupModalHandlers st) \<and> currentModalHandlers (cleanupModalHandlers st) = None
         \<and> confirmBtn_click (cleanupModalHandlers st) = []
         \<and> cancelBtn_click (cleanupModalHandlers st) = []
         \<and> modalOverlay_click (cleanupModalHandlers st) = []
         \<and> document_keydown (cleanupModalHandlers st) = []
         \<and> fired (cleanupModalHandlers st) = fired st
         \<and> overlay_hidden (cleanupModalHandlers st) = overlay_hidden st"
  using assms
  by (cases "currentModalHandlers st")
     (simp_all add: modal_inv_def Let_def cleanupModalHandlers_def removeEventListener_def)

lemma closeModal_inv:
  assumes "modal_inv st"
  shows "modal_inv (closeModal st) \<and> modal_closed (closeModal st)
         \<and> fired (closeModal st) = fired st"
proof -
  let ?st1 = "st\<lparr> overlay_hidden := True \<rparr>"
  have inv1: "modal_inv ?st1"
    using assms by (simp add: modal_inv_def Let_def)
  have "closeModal st = cleanupModalHandlers ?st1"
    using assms by (simp add: closeModal_def modal_inv_def Let_def)
  with cleanup_inv [OF inv1] show ?thesis
    by (simp add: modal_closed_def)
qed

lemma openModal_inv:
  assumes "modal_inv st"
  shows "modal_inv (openModal onConfirm onCancel st)
         \<and> (\<exists>h. currentModalHandlers (openModal onConfirm onCancel st) = Some h
                \<and> h_onConfirm h = onConfirm \<and> h_onCancel h = onCancel)
         \<and> fired (openModal onConfirm onCancel st) = fired st
         \<and> \<not> overlay_hidden (openModal onConfirm onCancel st)"
proof -
  have present: "elements_present st"
    using assms by (simp add: modal_inv_def Let_def)
  from cleanup_inv [OF assms] have c: "modal_inv (cleanupModalHandlers st)"
    "confirmBtn_click (cleanupModalHandlers st) = []"
    "cancelBtn_click (cleanupModalHandlers st) = []"
    "modalOverlay_click (cleanupModalHandlers st) = []"
    "document_keydown (cleanupModalHandlers st) = []"
    "fired (cleanupModalHandlers st) = fired st"
    by simp_all
  from c(1) have "elements_present (cleanupModalHandlers st)"
    by (simp add: modal_inv_def Let_def)
  then show ?thesis
    using present c
    by (simp add: openModal_def Let_def addEventListener_def modal_inv_def)
qed

lemma dispatch_single:
  "dispatch run target [h] st = (if h_id h \<in> set (map h_id (target st)) then run h st else st)"
  by simp

lemma click_confirm_inv:
  assumes "modal_inv st"
  shows "modal_inv (click_confirm st) \<and>
         (case currentModalHandlers st of
            None \<Rightarrow> click_confirm st = st
          | Some h \<Rightarrow> fired (click_confirm st) = fired st @ invoked (h_onConfirm h)
                      \<and> modal_closed (click_confirm st))"
proof (cases "currentModalHandlers st")
  case None
  with assms have "click_confirm st = st"
    by (simp add: click_confirm_def modal_inv_def Let_def)
  with assms None show ?thesis by simp
next
  case (Some h)
  let ?st1 = "call_back (h_onConfirm h) st"
  have inv1: "modal_inv ?st1" and f1: "fired ?st1 = fired st @ invoked (h_onConfirm h)"
    using assms by (simp_all add: call_back_def modal_inv_def Let_def invoked_def split: option.splits)
  from assms Some have lists: "confirmBtn_click st = [h]"
    by (simp add: modal_inv_def Let_def)
  have step: "dispatch handleConfirm confirmBtn_click (confirmBtn_click st) st = closeModal ?st1"
    by (simp add: lists handleConfirm_def)
  from closeModal_inv [OF inv1] have closed: "modal_inv (closeModal ?st1)"
    "modal_closed (closeModal ?st1)" "fired (closeModal ?st1) = fired ?st1"
    by simp_all
  from closed(2) have "modalOverlay_click (closeModal ?st1) = []"
    by (simp add: modal_closed_def)
  then have "click_confirm st = closeModal ?st1"
    by (simp add: click_confirm_def step)
  with closed f1 Some show ?thesis by simp
qed

lemma cancel_dispatch:
  assumes "modal_inv st" "target st = (case currentModalHandlers st of None \<Rightarrow> [] | Some h \<Rightarrow> [h])"
  shows "modal_inv (dispatch handleCancel target (target st) st) \<and>
         (case currentModalHandlers st of
            None \<Rightarrow> dispatch handleCancel target (target st) st = st
          | Some h \<Rightarrow>
              fired (dispatch handleCancel target (target st) st)
                  = fired st @ invoked (h_onCancel h)
              \<and> modal_closed (dispatch handleCancel target (target st) st))"
proof (cases "currentModalHandlers st")
  case None
  with assms show ?thesis by simp
next
  case (Some h)
  let ?st1 = "call_back (h_onCancel h) st"
  have inv1: "modal_inv ?st1" and f1: "fired ?st1 = fired st @ invoked (h_onCancel h)"
    using assms(1) by (simp_all add: call_back_def modal_inv_def Let_def invoked_def split: option.splits)
  from assms(2) Some have lists: "target st = [h]"
    by simp
  have step: "dispatch handleCancel target (target st) st = closeModal ?st1"
    by (simp add: lists handleCancel_def)
  from closeModal_inv [OF inv1] f1 Some step show ?thesis by simp
qed

lemma click_cancel_inv:
  assumes "modal_inv st"
  shows "modal_inv (click_cancel st) \<and>
         (case currentModalHandlers st of
            None \<Rightarrow> click_cancel st = st
          | Some h \<Rightarrow> fired (click_cancel st) = fired st @ invoked (h_onCancel h)
                      \<and> modal_closed (click_cancel st))"
proof -
  let ?st1 = "dispatch handleCancel cancelBtn_click (cancelBtn_click st) st"
  have lists: "cancelBtn_click st = (case currentModalHandlers st of None \<Rightarrow> [] | Some h \<Rightarrow> [h])"
    using assms by (simp add: modal_inv_def Let_def)
  note d = cancel_dispatch [where target = cancelBtn_click, OF assms lists]
  show ?thesis
  proof (cases "currentModalHandlers st")
    case None
    with d have "?st1 = st" by simp
    moreover from assms None have "modalOverlay_click st = []"
      by (simp add: modal_inv_def Let_def)
    ultimately have "click_cancel st = st"
      by (simp add: click_cancel_def)
    with assms None show ?thesis by simp
  next
    case (Some h)
    with d have closed: "modal_closed ?st1" and f: "fired ?st1 = fired st @ invoked (h_onCancel h)"
      and inv: "modal_inv ?st1"
      by simp_all
    from closed have "modalOverlay_click ?st1 = []"
      by (simp add: modal_closed_def)
    then have "click_cancel st = ?st1"
      by (simp add: click_cancel_def)
    with closed f inv Some show ?thesis by simp
  qed
qed

lemma modal_step_inv:
  assumes "modal_inv st"
  shows "modal_inv (modal_step st a)"
proof (cases a)
  case (Open_modal c1 c2)
  with openModal_inv [OF assms] show ?thesis by simp
next
  case Close_modal
  with closeModal_inv [OF assms] show ?thesis by simp
next
  case Click_confirm
  with click_confirm_inv [OF assms] show ?thesis by simp
next
  case Click_cancel
  with click_cancel_inv [OF assms] show ?thesis by simp
next
  case Click_overlay
  have "modalOverlay_click st = (case currentModalHandlers st of None \<Rightarrow> [] | Some h \<Rightarrow> [h])"
    using assms by (simp add: modal_inv_def Let_def)
  from cancel_dispatch [where target = modalOverlay_click, OF assms this] Click_overlay
  show ?thesis
    by (simp add: click_overlay_def)
next
  case Press_escape
  have "document_keydown st = (case currentModalHandlers st of None \<Rightarrow> [] | Some h \<Rightarrow> [h])"
    using assms by (simp add: modal_inv_def Let_def)
  from cancel_dispatch [where target = document_keydown, OF assms this] Press_escape
  show ?thesis
    by (simp add: press_escape_def)
qed

lemma modal_run_inv:
  assumes "modal_inv st"
  shows "modal_inv (modal_run st acts)"
  using assms unfolding modal_run_def
  by (induction acts arbitrary: st) (simp_all add: modal_step_inv)

text \<open>
  Claim C7. After any run of openings, closings, clicks and key presses on the loaded
  modal, a further \<open>openModal\<close> leaves on each of the four event targets exactly one
  listener, the one it registered: the listeners of the earlier calls are gone. A click on
  confirm then invokes the \<open>onConfirm\<close> of this last call, once and nothing else, and
  closes the modal, removing the listeners; a click on cancel does the same with the
  \<open>onCancel\<close> of the last call. A callback that was not given is not invoked.
\<close>

theorem C7_last_handlers_only:
  fixes acts :: "'c modal_action list" and onConfirm onCancel :: "'c option"
  defines "st \<equiv> modal_run modal_loaded (acts @ [Open_modal onConfirm onCancel])"
  shows
    "map h_onConfirm (confirmBtn_click st) = [onConfirm] \<and>
     map h_onCancel (cancelBtn_click st) = [onCancel] \<and>
     length (modalOverlay_click st) = 1 \<and> length (document_keydown st) = 1 \<and>
     \<not> overlay_hidden st \<and>
     fired (click_confirm st) = fired st @ invoked onConfirm \<and>
     modal_closed (click_confirm st) \<and>
     fired (click_cancel st) = fired st @ invoked onCancel \<and>
     modal_closed (click_cancel st)"
proof -
  let ?before = "modal_run modal_loaded acts"
  have before: "modal_inv ?before"
    by (rule modal_run_inv [OF modal_inv_loaded])
  have st: "st = openModal onConfirm onCancel ?before"
    by (simp add: st_def modal_run_def)
  from openModal_inv [OF before, of onConfirm onCancel] obtain h where
    inv: "modal_inv st" and h: "currentModalHandlers st = Some h"
      "h_onConfirm h = onConfirm" "h_onCancel h = onCancel"
    and shown: "\<not> overlay_hidden st"
    unfolding st by blast
  from inv h(1) have lists: "confirmBtn_click st = [h]" "cancelBtn_click st = [h]"
    "modalOverlay_click st = [h]" "document_keydown st = [h]"
    by (simp_all add: modal_inv_def Let_def)
  from click_confirm_inv [OF inv] h have confirm:
    "fired (click_confirm st) = fired st @ invoked onConfirm" "modal_closed (click_confirm st)"
    by simp_all
  from click_cancel_inv [OF inv] h have cancel:
    "fired (click_cancel st) = fired st @ invoked onCancel" "modal_closed (click_cancel st)"
    by simp_all
  from lists h shown confirm cancel show ?thesis by simp
qed

theorem C7_last_handlers_only_witness:
  "fired (click_confirm (modal_run modal_loaded
            [Open_modal (Some 1) None, Open_modal (Some 2) (Some 3)])) = [2::nat] \<and>
   fired (click_cancel (modal_run modal_loaded
            [Open_modal (Some 1) None, Open_modal (Some 2) (Some 3)])) = [3::nat] \<and>
   length (confirmBtn_click (modal_run modal_loaded
            [Open_modal (Some 1) None, Open_modal (Some 2) (Some (3::nat))])) = 1"
proof -
  let ?st = "modal_run modal_loaded [Open_modal (Some 1) None, Open_modal (Some 2) (Some (3::nat))]"
  have quiet: "fired ?st = []"
    by (simp add: modal_run_def openModal_def cleanupModalHandlers_def modal_loaded_def
          addEventListener_def removeEventListener_def Let_def)
  from C7_last_handlers_only [where acts = "[Open_modal (Some 1) None]"
      and onConfirm = "Some 2" and onCancel = "Some (3::nat)"]
  have "map h_onConfirm (confirmBtn_click ?st) = [Some 2]"
    "fired (click_confirm ?st) = fired ?st @ invoked (Some 2)"
    "fired (click_cancel ?st) = fired ?st @ invoked (Some 3)"
    by simp_all
  then show ?thesis
    using quiet by (auto simp: invoked_def dest: arg_cong [where f = length])
qed

section \<open>The draft in local storage\<close>

lemma saveDraft_stores:
  assumes "post_title st = Some t" "post_content st = Some c" "t \<noteq> [] \<or> c \<noteq> []"
  shows "localStorage (saveDraft stringify now st) DRAFT_STORAGE_KEY
           = Some (stringify (draft_object t c now))"
  using assms by (auto simp: saveDraft_def)

lemma loadDraft_parses:
  assumes "localStorage st DRAFT_STORAGE_KEY = Some saved" "saved \<noteq> []" "parse saved = Some v"
  shows "loadDraft parse st = (Some v, st)"
  using assms by (simp add: loadDraft_def)

lemma handleSubmit_success:
  fixes http :: "request \<Rightarrow> 'e + prim option"
  assumes "post_title st = Some t" "post_content st = Some c"
    and "page_validateTitle t" "page_validateContent c" "notExpired"
    and "snd (createPost parseNum http
               \<lparr> title = JStr (trim t), content = JStr (trim c), imageIds = ids,
                 primaryImageId = primary \<rparr>) = Inr (Some postId)"
    and "postId \<noteq> JUndefined"
  shows "snd (handleSubmit parseNum http notExpired ids primary st)
           = (clearDraft st)\<lparr> hasUnsavedChanges := False, location := Some postId \<rparr>"
proof -
  obtain reqs where "createPost parseNum http
               \<lparr> title = JStr (trim t), content = JStr (trim c), imageIds = ids,
                 primaryImageId = primary \<rparr> = (reqs, Inr (Some postId))"
    using assms(6) by (metis prod.collapse)
  then show ?thesis
    using assms(1-5,7) by (simp add: handleSubmit_def)
qed

text \<open>
  Claim C8. When the page saves a draft of which the title or the content is not empty
  (the title \<open>hello\<close>, say), the text goes under the key \<open>anoo_post_draft\<close>, and loading
  the draft gives back an object with exactly the saved title and content, given that
  \<open>JSON.parse\<close> returns the saved object from the text that \<open>JSON.stringify\<close> made of it
  and that this text is not empty. A submission that passes the page's validation and for
  which \<open>createPost\<close> returns a post with an id removes the key.
\<close>

theorem C8_draft_round_trip:
  fixes http :: "request \<Rightarrow> 'e + prim option"
  shows
    "(post_title st = Some t \<and> post_content st = Some c \<and> (t \<noteq> [] \<or> c \<noteq> [])
        \<and> parse (stringify (draft_object t c now)) = Some (draft_object t c now)
        \<and> stringify (draft_object t c now) \<noteq> [] \<longrightarrow>
        localStorage (saveDraft stringify now st) DRAFT_STORAGE_KEY
          = Some (stringify (draft_object t c now))
        \<and> (\<exists>v. loadDraft parse (saveDraft stringify now st)
                  = (Some v, saveDraft stringify now st)
               \<and> json_prop v ''title'' = Some (Json_str t)
               \<and> json_prop v ''content'' = Some (Json_str c))) \<and>
     (post_title st = Some t \<and> post_content st = Some c
        \<and> page_validateTitle t \<and> page_validateContent c \<and> notExpired
        \<and> snd (createPost parseNum http
                 \<lparr> title = JStr (trim t), content = JStr (trim c), imageIds = ids,
                   primaryImageId = primary \<rparr>) = Inr (Some postId)
        \<and> postId \<noteq> JUndefined \<longrightarrow>
        localStorage (snd (handleSubmit parseNum http notExpired ids primary st)) DRAFT_STORAGE_KEY
          = None
        \<and> location (snd (handleSubmit parseNum http notExpired ids primary st)) = Some postId) \<and>
     DRAFT_STORAGE_KEY = utf16 ''anoo_post_draft''"
proof (intro conjI impI)
  assume a: "post_title st = Some t \<and> post_content st = Some c \<and> (t \<noteq> [] \<or> c \<noteq> [])
        \<and> parse (stringify (draft_object t c now)) = Some (draft_object t c now)
        \<and> stringify (draft_object t c now) \<noteq> []"
  then have stored: "localStorage (saveDraft stringify now st) DRAFT_STORAGE_KEY
          = Some (stringify (draft_object t c now))"
    by (simp add: saveDraft_stores)
  then show "localStorage (saveDraft stringify now st) DRAFT_STORAGE_KEY
          = Some (stringify (draft_object t c now))" .
  have "loadDraft parse (saveDraft stringify now st)
      = (Some (draft_object t c now), saveDraft stringify now st)"
    by (rule loadDraft_parses [OF stored]) (use a in simp_all)
  then show "\<exists>v. loadDraft parse (saveDraft stringify now st)
                  = (Some v, saveDraft stringify now st)
               \<and> json_prop v ''title'' = Some (Json_str t)
               \<and> json_prop v ''content'' = Some (Json_str c)"
    by (simp add: draft_object_def)
next
  assume a: "post_title st = Some t \<and> post_content st = Some c
        \<and> page_validateTitle t \<and> page_validateContent c \<and> notExpired
        \<and> snd (createPost parseNum http
                 \<lparr> title = JStr (trim t), content = JStr (trim c), imageIds = ids,
                   primaryImageId = primary \<rparr>) = Inr (Some postId)
        \<and> postId \<noteq> JUndefined"
  have after: "snd (handleSubmit parseNum http notExpired ids primary st)
           = (clearDraft st)\<lparr> hasUnsavedChanges := False, location := Some postId \<rparr>"
    by (rule handleSubmit_success [where t = t and c = c]) (use a in simp_all)
  show "localStorage (snd (handleSubmit parseNum http notExpired ids primary st)) DRAFT_STORAGE_KEY
          = None"
    by (simp add: after clearDraft_def)
  show "location (snd (handleSubmit parseNum http notExpired ids primary st)) = Some postId"
    by (simp add: after)
next
  show "DRAFT_STORAGE_KEY = utf16 ''anoo_post_draft''"
    by (simp add: DRAFT_STORAGE_KEY_def)
qed

lemma trim_hello: "trim (utf16 ''hello'') = utf16 ''hello''"
  by (simp add: trim_def utf16_def isWhiteSpace_def)

lemma trim_dear_diary: "trim (utf16 ''dear diary'') = utf16 ''dear diary''"
  by (simp add: trim_def utf16_def isWhiteSpace_def)

theorem C8_draft_round_trip_witness:
  "(\<exists>v. fst (loadDraft hello_parse
               (saveDraft hello_stringify (utf16 ''2025-01-01T00:00:00.000Z'') hello_page)) = Some v
        \<and> json_prop v ''title'' = Some (Json_str (utf16 ''hello''))
        \<and> json_prop v ''content'' = Some (Json_str (utf16 ''dear diary''))) \<and>
   localStorage
     (snd (handleSubmit no_number post_seven_http True (IdsArray []) JNull
            (saveDraft hello_stringify (utf16 ''2025-01-01T00:00:00.000Z'') hello_page)))
     DRAFT_STORAGE_KEY = None"
proof -
  let ?now = "utf16 ''2025-01-01T00:00:00.000Z''"
  let ?t = "utf16 ''hello''" and ?c = "utf16 ''dear diary''"
  let ?saved = "saveDraft hello_stringify ?now hello_page"
  have obj: "draft_object ?t ?c ?now = hello_draft"
    by (simp add: hello_draft_def)
  have nonempty: "?t \<noteq> []"
    by (simp add: utf16_def)
  have codec: "hello_parse (hello_stringify (draft_object ?t ?c ?now))
      = Some (draft_object ?t ?c ?now)"
    "hello_stringify (draft_object ?t ?c ?now) \<noteq> []"
    by (simp_all add: obj hello_parse_def hello_stringify_def) (simp add: utf16_def)
  have inputs: "post_title hello_page = Some ?t" "post_content hello_page = Some ?c"
    "post_title ?saved = Some ?t" "post_content ?saved = Some ?c"
    by (simp_all add: hello_page_def saveDraft_def Let_def)
  have valid: "page_validateTitle ?t" "page_validateContent ?c"
    by (simp_all add: page_validateTitle_def page_validateContent_def trim_hello trim_dear_diary)
       (simp_all add: utf16_def)
  have created: "snd (createPost no_number post_seven_http
        \<lparr> title = JStr (trim ?t), content = JStr (trim ?c), imageIds = IdsArray [],
          primaryImageId = JNull \<rparr>) = Inr (Some (JNum (JFin 7)))"
    by (simp add: createPost_def validateTitle_def validateContent_def normalizeImageIds_def
          call_def post_seven_http_def trim_hello trim_dear_diary)
       (simp add: utf16_def)
  note c8 = C8_draft_round_trip [where t = ?t and c = ?c and now = ?now
      and stringify = hello_stringify and parse = hello_parse and http = post_seven_http
      and parseNum = no_number and notExpired = True and ids = "IdsArray []"
      and primary = JNull and postId = "JNum (JFin 7)"]
  have "\<exists>v. loadDraft hello_parse ?saved = (Some v, ?saved)
        \<and> json_prop v ''title'' = Some (Json_str ?t)
        \<and> json_prop v ''content'' = Some (Json_str ?c)"
    using c8 [where st = hello_page] inputs(1,2) nonempty codec by blast
  then have loaded: "\<exists>v. fst (loadDraft hello_parse ?saved) = Some v
        \<and> json_prop v ''title'' = Some (Json_str ?t)
        \<and> json_prop v ''content'' = Some (Json_str ?c)"
    by auto
  have "localStorage (snd (handleSubmit no_number post_seven_http True (IdsArray []) JNull ?saved))
      DRAFT_STORAGE_KEY = None"
    using c8 [where st = ?saved] inputs(3,4) valid created by blast
  with loaded show ?thesis by blast
qed

section \<open>Cursor pagination\<close>













lemma loadComments_request:
  "fst (loadComments getComments sortComments createCommentElement formatCount (Some pid) st)
     = [\<lparr> cc_postId = pid, cc_cursor = JUndefined, cc_limit = JFin COMMENTS_PAGE_SIZE,
          cc_sort = JStr (utf16 ''desc'') \<rparr>]"
  by (simp add: loadComments_def Let_def split: sum.splits option.splits)




















end
